theory Spec2Isabelle
  imports Complex_Main
begin

section \<open>Values shared by the signal deriver and the backtest engine\<close>

text \<open>
  Prices, balances and rates are Python floats in the source; they are modelled as real
  numbers, so rounding is idealised away. A pandas Timestamp is the integer number of
  nanoseconds it stores, and the difference of two of them is a Timedelta, whose
  \<open>total_seconds()\<close> divides by \<open>10^9\<close>.
\<close>

type_synonym timestamp = int

definition total_seconds :: "int \<Rightarrow> real" where
  "total_seconds delta = real_of_int delta / 1000000000"

text \<open>
  The index of a frame holds Timestamps (a DatetimeIndex) or the integer labels of the
  default RangeIndex, which a frame built without an index gets, as the frame of the
  repository's \<open>test_initial_balance_validation\<close> does. Both are kept as integers, and
  the kind says which they are. The difference of two integer labels is an integer,
  which has no \<open>total_seconds\<close>: calling it raises \<open>AttributeError\<close>. Indexes of
  other kinds are not modelled.
\<close>

datatype index_kind = DatetimeIndex | RangeIndex

text \<open>
  Exceptions are values. \<open>ValueError\<close> carries the message of the \<open>raise\<close> statement;
  the other constructors are the built-in exceptions an operator of the source can raise.
\<close>

datatype error =
  ValueError string | ZeroDivisionError | TypeError | IndexError | KeyError string
  | AttributeError

text \<open>Python's \<open>/\<close> on floats and ints raises on a zero divisor.\<close>

definition py_div :: "real \<Rightarrow> real \<Rightarrow> error + real" where
  "py_div a b = (if b = 0 then Inl ZeroDivisionError else Inr (a / b))"

text \<open>\<open>(a - b).total_seconds()\<close> for two entries \<open>a\<close>, \<open>b\<close> of an index, given \<open>a - b\<close>.\<close>

definition timedelta_seconds :: "index_kind \<Rightarrow> int \<Rightarrow> error + real" where
  "timedelta_seconds kind delta =
     (case kind of
        DatetimeIndex \<Rightarrow> Inr (total_seconds delta)
      | RangeIndex \<Rightarrow> Inl AttributeError)"

text \<open>
  numpy's \<open>/\<close> on float64 scalars does not raise: a zero divisor gives an infinity or NaN.
  \<open>pyfloat\<close> is the value range of the two ratio metrics, which may be \<open>inf\<close>.
\<close>

datatype pyfloat = Fin real | PosInf | NegInf | NaN

definition np_div :: "real \<Rightarrow> real \<Rightarrow> pyfloat" where
  "np_div a b =
     (if b = 0 then (if a = 0 then NaN else if 0 < a then PosInf else NegInf)
      else Fin (a / b))"

fun py_abs :: "pyfloat \<Rightarrow> pyfloat" where
  "py_abs (Fin r) = Fin \<bar>r\<bar>"
| "py_abs PosInf = PosInf"
| "py_abs NegInf = PosInf"
| "py_abs NaN = NaN"

text \<open>\<open>str.upper\<close>, on the ASCII letters.\<close>

definition upper_char :: "char \<Rightarrow> char" where
  "upper_char c =
     (case map_of (zip ''abcdefghijklmnopqrstuvwxyz'' ''ABCDEFGHIJKLMNOPQRSTUVWXYZ'') c of
        Some u \<Rightarrow> u
      | None \<Rightarrow> c)"

definition upper :: "string \<Rightarrow> string" where
  "upper s = map upper_char s"

section \<open>The input table\<close>

text \<open>
  A DataFrame is its index and its columns. The two columns the engine reads are typed
  (\<open>close\<close> holds floats, \<open>signal\<close> holds strings) and are absent when \<open>None\<close>;
  \<open>df_other\<close> lists the labels of all remaining columns. \<open>df.empty\<close> is pandas'
  test: no rows or no columns.
\<close>

record dataframe =
  df_index :: "timestamp list"
  df_close :: "real list option"
  df_signal :: "string list option"
  df_other :: "string list"

definition df_empty :: "dataframe \<Rightarrow> bool" where
  "df_empty df \<longleftrightarrow>
     df_index df = [] \<or> (df_close df = None \<and> df_signal df = None \<and> df_other df = [])"

text \<open>Every column of a DataFrame has one cell per index entry.\<close>

definition wf_frame :: "dataframe \<Rightarrow> bool" where
  "wf_frame df \<longleftrightarrow>
     (case df_close df of None \<Rightarrow> True | Some cl \<Rightarrow> length cl = length (df_index df)) \<and>
     (case df_signal df of None \<Rightarrow> True | Some sg \<Rightarrow> length sg = length (df_index df))"

type_synonym bar = "timestamp \<times> real \<times> string"

text \<open>
  \<open>sort_index()\<close>: rows in ascending order of the index. For the unique index entries
  of the data model every sorting algorithm gives this order; pandas' default one is not
  stable, so rows that share an index entry may come out in another order than here.
\<close>

definition sort_index :: "(timestamp \<times> 'a) list \<Rightarrow> (timestamp \<times> 'a) list" where
  "sort_index rows = sort_key fst rows"

text \<open>
  Lines 66-68 and the \<open>zip\<close> of line 86: the sorted rows as triples of timestamp,
  close and upper-cased signal.
\<close>

definition bars_of :: "timestamp list \<Rightarrow> real list \<Rightarrow> string list \<Rightarrow> bar list" where
  "bars_of idx cl sg =
     map (\<lambda>(t, c, s). (t, c, upper s)) (sort_index (zip idx (zip cl sg)))"

section \<open>The backtest engine (backtest.py)\<close>

record config =
  initial_balance :: real
  buy_signals :: "string list"
  sell_signals :: "string list"
  slippage :: real
  commission :: real

definition buy_set :: "config \<Rightarrow> string set" where
  "buy_set cfg = set (map upper (buy_signals cfg))"

definition sell_set :: "config \<Rightarrow> string set" where
  "sell_set cfg = set (map upper (sell_signals cfg))"

record trade =
  tr_entry_time :: "timestamp option"
  tr_exit_time :: timestamp
  tr_entry_price :: real
  tr_exit_price :: real
  tr_pnl_pct :: real
  tr_duration_hrs :: real

text \<open>The local variables of \<open>backtest_signals\<close> that the loop updates.\<close>

record state =
  cash :: real
  position :: real
  entry_price :: "real option"
  entry_time :: "timestamp option"
  trade_log :: "trade list"
  pnl_decimals :: "real list"
  equity_curve :: "real list"
  equity_timestamps :: "timestamp list"
  peak_equity :: real
  max_drawdown :: real

definition init_state :: "config \<Rightarrow> state" where
  "init_state cfg =
     \<lparr>cash = initial_balance cfg, position = 0, entry_price = None, entry_time = None,
      trade_log = [], pnl_decimals = [], equity_curve = [], equity_timestamps = [],
      peak_equity = initial_balance cfg, max_drawdown = 0\<rparr>"

text \<open>
  The \<open>duration_hrs\<close> entry of a trade (lines 115-119 and 152-156): \<open>duration_hrs_on\<close>
  for either kind of index, \<open>duration_hrs\<close> its value on a DatetimeIndex.
\<close>

definition duration_hrs_on :: "index_kind \<Rightarrow> timestamp \<Rightarrow> timestamp option \<Rightarrow> error + real" where
  "duration_hrs_on kind timestamp et =
     (case et of
        Some t0 \<Rightarrow>
          (case timedelta_seconds kind (timestamp - t0) of
             Inl e \<Rightarrow> Inl e
           | Inr seconds \<Rightarrow> Inr (seconds / 3600))
      | None \<Rightarrow> Inr 0)"

definition duration_hrs :: "timestamp \<Rightarrow> timestamp option \<Rightarrow> real" where
  "duration_hrs timestamp et =
     (case et of Some t0 \<Rightarrow> total_seconds (timestamp - t0) / 3600 | None \<Rightarrow> 0)"

text \<open>Lines 91-126: the entry branch, the exit branch, and neither.\<close>

definition trade_step_on :: "index_kind \<Rightarrow> config \<Rightarrow> state \<Rightarrow> bar \<Rightarrow> error + state" where
  "trade_step_on kind cfg st b =
     (case b of (timestamp, price, signal) \<Rightarrow>
        if position st = 0 \<and> signal \<in> buy_set cfg then
          (let commission_fee = cash st * commission cfg;
               cash_after_fee = cash st - commission_fee;
               effective_price = price * (1 + slippage cfg)
           in case py_div cash_after_fee effective_price of
                Inl e \<Rightarrow> Inl e
              | Inr pos \<Rightarrow>
                  Inr (st\<lparr>cash := cash_after_fee - pos * effective_price,
                          position := pos,
                          entry_price := Some effective_price,
                          entry_time := Some timestamp\<rparr>))
        else if 0 < position st \<and> signal \<in> sell_set cfg then
          (let effective_price = price * (1 - slippage cfg);
               gross_proceeds = position st * effective_price;
               commission_fee = gross_proceeds * commission cfg;
               proceeds_net = gross_proceeds - commission_fee
           in case entry_price st of
                None \<Rightarrow> Inl TypeError
              | Some ep \<Rightarrow>
                  (case py_div (effective_price - ep) ep of
                     Inl e \<Rightarrow> Inl e
                   | Inr pnl_decimal \<Rightarrow>
                       (case duration_hrs_on kind timestamp (entry_time st) of
                          Inl e \<Rightarrow> Inl e
                        | Inr hrs \<Rightarrow>
                            Inr (st\<lparr>pnl_decimals := pnl_decimals st @ [pnl_decimal],
                                    trade_log := trade_log st @
                                      [\<lparr>tr_entry_time = entry_time st,
                                        tr_exit_time = timestamp,
                                        tr_entry_price = ep,
                                        tr_exit_price = effective_price,
                                        tr_pnl_pct = pnl_decimal * 100,
                                        tr_duration_hrs = hrs\<rparr>],
                                    cash := cash st + proceeds_net,
                                    position := 0,
                                    entry_price := None,
                                    entry_time := None\<rparr>))))
        else Inr st)"

text \<open>Lines 128-133: the equity point of the bar, the running peak and the drawdown.\<close>

definition mark_equity :: "state \<Rightarrow> bar \<Rightarrow> state" where
  "mark_equity st b =
     (case b of (timestamp, price, signal) \<Rightarrow>
        let equity = cash st + position st * price;
            peak = max (peak_equity st) equity;
            drawdown = (if peak \<noteq> 0 then (equity - peak) / peak else 0)
        in st\<lparr>equity_curve := equity_curve st @ [equity],
              equity_timestamps := equity_timestamps st @ [timestamp],
              peak_equity := peak,
              max_drawdown := min (max_drawdown st) drawdown\<rparr>)"

text \<open>One iteration of the loop of line 86.\<close>

definition step_on :: "index_kind \<Rightarrow> config \<Rightarrow> state \<Rightarrow> bar \<Rightarrow> error + state" where
  "step_on kind cfg st b =
     (case b of (timestamp, price, signal) \<Rightarrow>
        if price \<le> 0 then Inl (ValueError ''Close prices must be positive for backtesting'')
        else (case trade_step_on kind cfg st b of
                Inl e \<Rightarrow> Inl e
              | Inr st' \<Rightarrow> Inr (mark_equity st' b)))"

fun replay_on :: "index_kind \<Rightarrow> config \<Rightarrow> state \<Rightarrow> bar list \<Rightarrow> error + state" where
  "replay_on kind cfg st [] = Inr st"
| "replay_on kind cfg st (b # bs) =
     (case step_on kind cfg st b of Inl e \<Rightarrow> Inl e | Inr st' \<Rightarrow> replay_on kind cfg st' bs)"

text \<open>Lines 135-165: the liquidation of a position that outlives the last bar.\<close>

definition forced_exit_on :: "index_kind \<Rightarrow> config \<Rightarrow> bar list \<Rightarrow> state \<Rightarrow> error + state" where
  "forced_exit_on kind cfg bars st =
     (if 0 < position st \<and> entry_price st \<noteq> None then
        (case bars of
           [] \<Rightarrow> Inl IndexError
         | _ # _ \<Rightarrow>
             (let ep = the (entry_price st);
                  final_timestamp = fst (last bars);
                  price = fst (snd (last bars));
                  effective_price = price * (1 - slippage cfg);
                  gross_proceeds = position st * effective_price;
                  commission_fee = gross_proceeds * commission cfg;
                  proceeds_net = gross_proceeds - commission_fee
              in case py_div (effective_price - ep) ep of
                   Inl e \<Rightarrow> Inl e
                 | Inr pnl_decimal \<Rightarrow>
                     (case duration_hrs_on kind final_timestamp (entry_time st) of
                        Inl e \<Rightarrow> Inl e
                      | Inr hrs \<Rightarrow>
                          Inr (st\<lparr>pnl_decimals := pnl_decimals st @ [pnl_decimal],
                                  trade_log := trade_log st @
                                    [\<lparr>tr_entry_time = entry_time st,
                                      tr_exit_time = final_timestamp,
                                      tr_entry_price = ep,
                                      tr_exit_price = effective_price,
                                      tr_pnl_pct = pnl_decimal * 100,
                                      tr_duration_hrs = hrs\<rparr>],
                                  cash := cash st + proceeds_net,
                                  position := 0,
                                  entry_price := None,
                                  entry_time := None,
                                  equity_curve :=
                                    (if equity_curve st \<noteq> []
                                     then (equity_curve st)
                                            [length (equity_curve st) - 1 :=
                                               cash st + proceeds_net]
                                     else equity_curve st)\<rparr>))))
      else Inr st)"

subsection \<open>Metrics (lines 167-249)\<close>

record metrics =
  m_total_trades :: nat
  m_win_rate :: real
  m_avg_gain :: real
  m_avg_loss :: real
  m_profit_factor :: pyfloat
  m_net_return :: real
  m_max_drawdown :: real
  m_final_balance :: real
  m_gross_gain :: real
  m_gross_loss :: real
  m_best_trade :: real
  m_worst_trade :: real
  m_win_loss_ratio :: pyfloat
  m_initial_balance :: real
  m_avg_hold_hours :: real
  m_median_hold_hours :: real
  m_exposure_pct :: real

definition empty_metrics :: "real \<Rightarrow> metrics" where
  "empty_metrics ib =
     \<lparr>m_total_trades = 0, m_win_rate = 0, m_avg_gain = 0, m_avg_loss = 0,
      m_profit_factor = Fin 0, m_net_return = 0, m_max_drawdown = 0, m_final_balance = ib,
      m_gross_gain = 0, m_gross_loss = 0, m_best_trade = 0, m_worst_trade = 0,
      m_win_loss_ratio = Fin 0, m_initial_balance = ib, m_avg_hold_hours = 0,
      m_median_hold_hours = 0, m_exposure_pct = 0\<rparr>"

text \<open>\<open>np.mean\<close>, \<open>max\<close>, \<open>min\<close> and pandas' \<open>median\<close>; each is called on a non-empty list only.\<close>

definition mean :: "real list \<Rightarrow> real" where
  "mean xs = sum_list xs / real (length xs)"

definition list_max :: "real list \<Rightarrow> real" where
  "list_max xs = fold max (tl xs) (hd xs)"

definition list_min :: "real list \<Rightarrow> real" where
  "list_min xs = fold min (tl xs) (hd xs)"

definition median :: "real list \<Rightarrow> real" where
  "median xs =
     (let ys = sort xs; n = length ys
      in if even n then (ys ! (n div 2 - 1) + ys ! (n div 2)) / 2 else ys ! (n div 2))"

definition wins_of :: "real list \<Rightarrow> real list" where
  "wins_of pnl = filter (\<lambda>p. 0 < p) pnl"

definition losses_of :: "real list \<Rightarrow> real list" where
  "losses_of pnl = filter (\<lambda>p. p \<le> 0) pnl"

text \<open>Lines 176-178; the conditional expression nests to the right.\<close>

definition profit_factor :: "real list \<Rightarrow> pyfloat" where
  "profit_factor pnl =
     (let wins = wins_of pnl; losses = losses_of pnl
      in if losses \<noteq> [] \<and> sum_list losses \<noteq> 0
         then py_abs (np_div (sum_list wins) (sum_list losses))
         else if wins \<noteq> [] then PosInf else Fin 0)"

text \<open>Lines 185-187.\<close>

definition win_loss_ratio :: "real list \<Rightarrow> error + pyfloat" where
  "win_loss_ratio pnl =
     (let wins = wins_of pnl; losses = losses_of pnl
      in if losses \<noteq> []
         then (case py_div (real (length wins)) (real (length losses)) of
                 Inl e \<Rightarrow> Inl e
               | Inr r \<Rightarrow> Inr (Fin r))
         else if wins \<noteq> [] then Inr PosInf else Inr (Fin 0))"

text \<open>
  Lines 240-248: \<open>exposure_pct_on\<close> for either kind of index, \<open>exposure_pct\<close> its
  value on a DatetimeIndex. The span of the curve is taken, and \<open>total_seconds\<close>
  called on it, whenever there is an equity point.
\<close>

definition exposure_pct_on :: "index_kind \<Rightarrow> trade list \<Rightarrow> timestamp list \<Rightarrow> error + real" where
  "exposure_pct_on kind trades ets =
     (if ets \<noteq> [] then
        (case timedelta_seconds kind (last ets - hd ets) of
           Inl e \<Rightarrow> Inl e
         | Inr seconds \<Rightarrow>
             (let total_hours = (if 0 < seconds then seconds / 3600 else 0)
              in Inr (if trades \<noteq> [] \<and> 0 < total_hours
                      then sum_list (map tr_duration_hrs trades) / total_hours * 100 else 0)))
      else Inr 0)"

definition exposure_pct :: "trade list \<Rightarrow> timestamp list \<Rightarrow> real" where
  "exposure_pct trades ets =
     (let total_hours =
            (if ets \<noteq> [] \<and> 0 < total_seconds (last ets - hd ets)
             then total_seconds (last ets - hd ets) / 3600 else 0)
      in if trades \<noteq> [] \<and> 0 < total_hours
         then sum_list (map tr_duration_hrs trades) / total_hours * 100 else 0)"

definition compute_metrics_on :: "index_kind \<Rightarrow> config \<Rightarrow> state \<Rightarrow> error + metrics" where
  "compute_metrics_on kind cfg st =
     (let final_equity = cash st;
          pnl = pnl_decimals st;
          total_trades = length pnl;
          wins = wins_of pnl;
          losses = losses_of pnl;
          durations = map tr_duration_hrs (trade_log st)
      in case win_loss_ratio pnl of
           Inl e \<Rightarrow> Inl e
         | Inr wl \<Rightarrow>
             (case exposure_pct_on kind (trade_log st) (equity_timestamps st) of
                Inl e \<Rightarrow> Inl e
              | Inr exposure \<Rightarrow>
                  Inr \<lparr>m_total_trades = total_trades,
                       m_win_rate =
                         (if total_trades \<noteq> 0
                          then real (length wins) / real total_trades * 100 else 0),
                       m_avg_gain = (if wins \<noteq> [] then mean wins * 100 else 0),
                       m_avg_loss = (if losses \<noteq> [] then mean losses * 100 else 0),
                       m_profit_factor = profit_factor pnl,
                       m_net_return = (final_equity / initial_balance cfg - 1) * 100,
                       m_max_drawdown = max_drawdown st * 100,
                       m_final_balance = final_equity,
                       m_gross_gain = sum_list (filter (\<lambda>p. 0 < p) pnl) * 100,
                       m_gross_loss = \<bar>sum_list (filter (\<lambda>p. p < 0) pnl)\<bar> * 100,
                       m_best_trade = (if pnl \<noteq> [] then list_max pnl * 100 else 0),
                       m_worst_trade = (if pnl \<noteq> [] then list_min pnl * 100 else 0),
                       m_win_loss_ratio = wl,
                       m_initial_balance = initial_balance cfg,
                       m_avg_hold_hours = (if trade_log st \<noteq> [] then mean durations else 0),
                       m_median_hold_hours =
                         (if trade_log st \<noteq> [] then median durations else 0),
                       m_exposure_pct = exposure\<rparr>))"

subsection \<open>The entry point\<close>

type_synonym result = "metrics \<times> trade list \<times> (timestamp \<times> real) list"

definition run_bars_on :: "index_kind \<Rightarrow> config \<Rightarrow> bar list \<Rightarrow> error + result" where
  "run_bars_on kind cfg bars =
     (case replay_on kind cfg (init_state cfg) bars of
        Inl e \<Rightarrow> Inl e
      | Inr st \<Rightarrow>
          (case forced_exit_on kind cfg bars st of
             Inl e \<Rightarrow> Inl e
           | Inr st' \<Rightarrow>
               (case compute_metrics_on kind cfg st' of
                  Inl e \<Rightarrow> Inl e
                | Inr m \<Rightarrow>
                    Inr (m, trade_log st', zip (equity_timestamps st') (equity_curve st')))))"

text \<open>\<open>backtest_signals\<close> on a frame whose index is of the given kind.\<close>

definition backtest_signals_on :: "index_kind \<Rightarrow> dataframe \<Rightarrow> config \<Rightarrow> error + result" where
  "backtest_signals_on kind df cfg =
     (if initial_balance cfg \<le> 0 then Inl (ValueError ''initial_balance must be > 0'')
      else if df_empty df then Inr (empty_metrics (initial_balance cfg), [], [])
      else (case (df_close df, df_signal df) of
              (Some cl, Some sg) \<Rightarrow> run_bars_on kind cfg (bars_of (df_index df) cl sg)
            | _ \<Rightarrow> Inl (ValueError ''DataFrame must include 'close' and 'signal' columns'')))"

subsection \<open>The engine on a DatetimeIndex\<close>

text \<open>
  The specification keys every table by timestamp. The names of the source stand for
  the functions on such a table.
\<close>

definition trade_step :: "config \<Rightarrow> state \<Rightarrow> bar \<Rightarrow> error + state" where
  "trade_step = trade_step_on DatetimeIndex"

definition step :: "config \<Rightarrow> state \<Rightarrow> bar \<Rightarrow> error + state" where
  "step = step_on DatetimeIndex"

definition replay :: "config \<Rightarrow> state \<Rightarrow> bar list \<Rightarrow> error + state" where
  "replay = replay_on DatetimeIndex"

definition forced_exit :: "config \<Rightarrow> bar list \<Rightarrow> state \<Rightarrow> error + state" where
  "forced_exit = forced_exit_on DatetimeIndex"

definition compute_metrics :: "config \<Rightarrow> state \<Rightarrow> error + metrics" where
  "compute_metrics = compute_metrics_on DatetimeIndex"

definition run_bars :: "config \<Rightarrow> bar list \<Rightarrow> error + result" where
  "run_bars = run_bars_on DatetimeIndex"

definition backtest_signals :: "dataframe \<Rightarrow> config \<Rightarrow> error + result" where
  "backtest_signals = backtest_signals_on DatetimeIndex"

text \<open>The defaults of the keyword arguments.\<close>

definition default_config :: "real \<Rightarrow> config" where
  "default_config ib =
     \<lparr>initial_balance = ib, buy_signals = [''BUY'', ''STRONG BUY''],
      sell_signals = [''SELL'', ''STRONG SELL''], slippage = 0.0005, commission = 0.0007\<rparr>"

section \<open>The signal deriver (strategy.py)\<close>

text \<open>
  A float Series is a list of optional reals, \<open>None\<close> standing for NaN. Comparisons
  are elementwise and false wherever a side is NaN; \<open>&\<close> is elementwise conjunction;
  \<open>out.loc[mask, col] = v\<close> overwrites the cells the mask selects.
\<close>

type_synonym series = "real option list"

definition shift1 :: "'a option list \<Rightarrow> 'a option list" where
  "shift1 xs = (if xs = [] then [] else None # butlast xs)"

definition reindex :: "nat \<Rightarrow> series \<Rightarrow> series" where
  "reindex n xs = take n xs @ replicate (n - length xs) None"

definition lt_scalar :: "series \<Rightarrow> real \<Rightarrow> bool list" where
  "lt_scalar xs c = map (\<lambda>x. case x of None \<Rightarrow> False | Some v \<Rightarrow> v < c) xs"

definition le_scalar :: "series \<Rightarrow> real \<Rightarrow> bool list" where
  "le_scalar xs c = map (\<lambda>x. case x of None \<Rightarrow> False | Some v \<Rightarrow> v \<le> c) xs"

definition gt_scalar :: "series \<Rightarrow> real \<Rightarrow> bool list" where
  "gt_scalar xs c = map (\<lambda>x. case x of None \<Rightarrow> False | Some v \<Rightarrow> c < v) xs"

definition ge_scalar :: "series \<Rightarrow> real \<Rightarrow> bool list" where
  "ge_scalar xs c = map (\<lambda>x. case x of None \<Rightarrow> False | Some v \<Rightarrow> c \<le> v) xs"

definition lt_cell :: "real option \<Rightarrow> real option \<Rightarrow> bool" where
  "lt_cell x y = (case x of None \<Rightarrow> False | Some a \<Rightarrow> (case y of None \<Rightarrow> False | Some b \<Rightarrow> a < b))"

definition lt_series :: "series \<Rightarrow> series \<Rightarrow> bool list" where
  "lt_series xs ys = map2 lt_cell xs ys"

definition gt_series :: "series \<Rightarrow> series \<Rightarrow> bool list" where
  "gt_series xs ys = map2 (\<lambda>x y. lt_cell y x) xs ys"

definition notna :: "series \<Rightarrow> bool list" where
  "notna xs = map (\<lambda>x. x \<noteq> None) xs"

definition and_mask :: "bool list \<Rightarrow> bool list \<Rightarrow> bool list" where
  "and_mask ms ns = map2 (\<and>) ms ns"

definition assign_where :: "bool list \<Rightarrow> 'a \<Rightarrow> 'a list \<Rightarrow> 'a list" where
  "assign_where msk v col = map2 (\<lambda>m x. if m then v else x) msk col"

text \<open>
  The indicator library (indicators.py) is a parameter of the deriver, as it is in the
  repository's tests, which replace \<open>rsi\<close>, \<open>ema\<close> and \<open>macd\<close>: pandas' exponentially
  weighted means are not modelled. An indicator maps the close prices and its periods to
  a Series; \<open>macd\<close> returns the columns \<open>macd\<close>, \<open>signal\<close> and \<open>histogram\<close>.
\<close>

record indicators =
  ind_rsi :: "real list \<Rightarrow> nat \<Rightarrow> series"
  ind_ema :: "real list \<Rightarrow> nat \<Rightarrow> series"
  ind_macd :: "real list \<Rightarrow> nat \<Rightarrow> nat \<Rightarrow> nat \<Rightarrow> series \<times> series \<times> series"

text \<open>The columns \<open>rsi_signal\<close> adds to (or overwrites in) the frame.\<close>

record derived =
  c_rsi :: series
  c_ema_fast :: series
  c_ema_slow :: series
  c_macd :: series
  c_macd_signal :: series
  c_macd_histogram :: series
  c_signal :: "string list"
  c_signal_strength :: "string list"
  c_divergence :: "string option list"

text \<open>
  What \<open>rsi_signal\<close> returns: \<open>Copy df\<close> is a copy of the input with no column added;
  \<open>Enriched idx cl cols\<close> is the sorted frame, of which the index and the \<open>close\<close>
  column are kept here, with the columns \<open>cols\<close> added.
\<close>

datatype enriched = Copy dataframe | Enriched "timestamp list" "real list" derived

text \<open>
  Lines 45-74: the crossover masks and the \<open>signal\<close> and \<open>signal_strength\<close> columns of
  a frame of \<open>n\<close> rows.
\<close>

definition signal_columns ::
  "nat \<Rightarrow> series \<Rightarrow> series \<Rightarrow> series \<Rightarrow> series \<Rightarrow> series \<Rightarrow> real \<Rightarrow> real \<Rightarrow>
     string list \<times> string list" where
  "signal_columns n rsi ema_fast ema_slow macd macd_signal oversold overbought =
     (let prev_rsi = shift1 rsi;
          rsi_cross_up = and_mask (lt_scalar prev_rsi oversold) (ge_scalar rsi oversold);
          rsi_cross_down = and_mask (gt_scalar prev_rsi overbought) (le_scalar rsi overbought);
          prev_macd = shift1 macd;
          prev_signal = shift1 macd_signal;
          macd_cross_up =
            and_mask (lt_series prev_macd prev_signal) (gt_series macd macd_signal);
          macd_cross_down =
            and_mask (gt_series prev_macd prev_signal) (lt_series macd macd_signal);
          ema_uptrend = gt_series ema_fast ema_slow;
          ema_downtrend = lt_series ema_fast ema_slow;
          buy_mask =
            and_mask (and_mask (and_mask rsi_cross_up ema_uptrend) (notna rsi))
              (notna prev_rsi);
          sell_mask =
            and_mask (and_mask (and_mask rsi_cross_down ema_downtrend) (notna rsi))
              (notna prev_rsi);
          strong_buy = and_mask buy_mask macd_cross_up;
          strong_sell = and_mask sell_mask macd_cross_down;
          signal =
            assign_where strong_sell ''STRONG SELL''
              (assign_where strong_buy ''STRONG BUY''
                (assign_where sell_mask ''SELL''
                  (assign_where buy_mask ''BUY'' (replicate n ''HOLD''))));
          signal_strength =
            assign_where strong_sell ''BEARISH''
              (assign_where strong_buy ''BULLISH''
                (assign_where sell_mask ''SELL''
                  (assign_where buy_mask ''BUY'' (replicate n ''NEUTRAL''))))
      in (signal, signal_strength))"

text \<open>Lines 76-90: the divergence annotation.\<close>

definition divergence_column :: "nat \<Rightarrow> series \<Rightarrow> series \<Rightarrow> string option list" where
  "divergence_column n price rsi_vals =
     (let higher_high =
            and_mask (gt_series price (shift1 price))
              (gt_series (shift1 price) (shift1 (shift1 price)));
          lower_high =
            and_mask (lt_series rsi_vals (shift1 rsi_vals))
              (lt_series (shift1 rsi_vals) (shift1 (shift1 rsi_vals)));
          bearish_div = and_mask higher_high lower_high;
          lower_low =
            and_mask (lt_series price (shift1 price))
              (lt_series (shift1 price) (shift1 (shift1 price)));
          higher_low =
            and_mask (gt_series rsi_vals (shift1 rsi_vals))
              (gt_series (shift1 rsi_vals) (shift1 (shift1 rsi_vals)));
          bullish_div = and_mask lower_low higher_low
      in assign_where bullish_div (Some ''BULLISH'')
           (assign_where bearish_div (Some ''BEARISH'') (replicate n None)))"

definition rsi_signal ::
  "indicators \<Rightarrow> dataframe \<Rightarrow> nat \<Rightarrow> real \<Rightarrow> real \<Rightarrow> nat \<Rightarrow> nat \<Rightarrow> error + enriched" where
  "rsi_signal ind df period oversold overbought ema_fast_period ema_slow_period =
     (if df_empty df then Inr (Copy df)
      else case df_close df of
        None \<Rightarrow> Inl (KeyError ''close'')
      | Some cl \<Rightarrow>
         (let out = sort_index (zip (df_index df) cl);
              idx = map fst out;
              closes = map snd out;
              n = length idx;
              rsi = reindex n (ind_rsi ind closes period);
              ema_fast = reindex n (ind_ema ind closes ema_fast_period);
              ema_slow = reindex n (ind_ema ind closes ema_slow_period);
              macd_df = ind_macd ind closes ema_fast_period ema_slow_period 9;
              macd_df = (if fst macd_df = []
                         then (replicate n None, replicate n None, replicate n None)
                         else (reindex n (fst macd_df), reindex n (fst (snd macd_df)),
                               reindex n (snd (snd macd_df))));
              macd = fst macd_df;
              macd_signal = fst (snd macd_df);
              sigs = signal_columns n rsi ema_fast ema_slow macd macd_signal
                       oversold overbought
          in Inr (Enriched idx closes
                   \<lparr>c_rsi = rsi, c_ema_fast = ema_fast, c_ema_slow = ema_slow,
                    c_macd = macd, c_macd_signal = macd_signal,
                    c_macd_histogram = snd (snd macd_df),
                    c_signal = fst sigs, c_signal_strength = snd sigs,
                    c_divergence = divergence_column n (map Some closes) rsi\<rparr>)))"

section \<open>Notions the properties are stated with\<close>

text \<open>
  A valid configuration: a strictly positive balance and fractional rates, as the
  configuration surface of the specification describes them.
\<close>

definition fractional :: "real \<Rightarrow> bool" where
  "fractional r \<longleftrightarrow> 0 \<le> r \<and> r < 1"

definition valid_config :: "config \<Rightarrow> bool" where
  "valid_config cfg \<longleftrightarrow>
     0 < initial_balance cfg \<and> fractional (slippage cfg) \<and> fractional (commission cfg)"

definition closes_positive :: "bar list \<Rightarrow> bool" where
  "closes_positive bars \<longleftrightarrow> list_all (\<lambda>b. 0 < fst (snd b)) bars"

text \<open>The single position slot: FLAT holds nothing, LONG holds a positive quantity.\<close>

definition flat :: "state \<Rightarrow> bool" where
  "flat st \<longleftrightarrow> position st = 0"

definition long :: "state \<Rightarrow> bool" where
  "long st \<longleftrightarrow> 0 < position st"

text \<open>
  The cash a bar moves, read off the state before the bar: an entry pays the commission
  and the cost of the units bought, an exit receives the proceeds net of commission, and
  any other bar moves nothing. \<open>cash_deltas\<close> lists them along a replay, and
  \<open>forced_exit_delta\<close> is the cash the final liquidation adds.
\<close>

definition bar_cash_delta :: "config \<Rightarrow> state \<Rightarrow> bar \<Rightarrow> real" where
  "bar_cash_delta cfg st b =
     (case b of (timestamp, price, signal) \<Rightarrow>
        if flat st \<and> signal \<in> buy_set cfg then
          - (cash st * commission cfg)
          - (cash st - cash st * commission cfg) / (price * (1 + slippage cfg))
              * (price * (1 + slippage cfg))
        else if long st \<and> signal \<in> sell_set cfg then
          position st * (price * (1 - slippage cfg))
          - position st * (price * (1 - slippage cfg)) * commission cfg
        else 0)"

fun cash_deltas :: "config \<Rightarrow> state \<Rightarrow> bar list \<Rightarrow> real list" where
  "cash_deltas cfg st [] = []"
| "cash_deltas cfg st (b # bs) =
     bar_cash_delta cfg st b #
       (case step cfg st b of Inl e \<Rightarrow> [] | Inr st' \<Rightarrow> cash_deltas cfg st' bs)"

definition forced_exit_delta :: "config \<Rightarrow> bar list \<Rightarrow> state \<Rightarrow> real" where
  "forced_exit_delta cfg bars st =
     (if long st \<and> bars \<noteq> [] then
        position st * (fst (snd (last bars)) * (1 - slippage cfg))
        - position st * (fst (snd (last bars)) * (1 - slippage cfg)) * commission cfg
      else 0)"

text \<open>The three parts of a result, for statements about a concrete run.\<close>

definition metrics_of :: "error + result \<Rightarrow> metrics option" where
  "metrics_of r = (case r of Inl e \<Rightarrow> None | Inr (m, trades, equity) \<Rightarrow> Some m)"

definition trades_of :: "error + result \<Rightarrow> trade list" where
  "trades_of r = (case r of Inl e \<Rightarrow> [] | Inr (m, trades, equity) \<Rightarrow> trades)"

definition equity_of :: "error + result \<Rightarrow> (timestamp \<times> real) list" where
  "equity_of r = (case r of Inl e \<Rightarrow> [] | Inr (m, trades, equity) \<Rightarrow> equity)"

text \<open>
  Scenario A of the specification, the frame of \<open>test_metrics_for_profitable_trade\<close>:
  five hourly bars. \<open>approx x y\<close> reads "x is y before fees": within one percent of y,
  twenty times the default slippage.
\<close>

definition hour :: int where
  "hour = 3600000000000"

definition scenario_A :: dataframe where
  "scenario_A =
     \<lparr>df_index = [0, hour, 2 * hour, 3 * hour, 4 * hour],
      df_close = Some [100, 110, 115, 90, 88],
      df_signal = Some [''HOLD'', ''BUY'', ''SELL'', ''BUY'', ''SELL''],
      df_other = []\<rparr>"

definition approx :: "real \<Rightarrow> real \<Rightarrow> bool" where
  "approx x y \<longleftrightarrow> \<bar>x - y\<bar> \<le> y / 100"

text \<open>
  The signal rule in the words of the specification. \<open>cell_at\<close> reads a Series at a bar
  and \<open>prev_at\<close> at the bar before, which the first bar does not have.
\<close>

definition cell_at :: "series \<Rightarrow> nat \<Rightarrow> real option" where
  "cell_at xs t = (if t < length xs then xs ! t else None)"

definition prev_at :: "series \<Rightarrow> nat \<Rightarrow> real option" where
  "prev_at xs t = (if t = 0 then None else cell_at xs (t - 1))"

definition le_cell :: "real option \<Rightarrow> real option \<Rightarrow> bool" where
  "le_cell x y = (case x of None \<Rightarrow> False | Some a \<Rightarrow> (case y of None \<Rightarrow> False | Some b \<Rightarrow> a \<le> b))"

definition oversold_cross_up :: "derived \<Rightarrow> real \<Rightarrow> nat \<Rightarrow> bool" where
  "oversold_cross_up cols oversold t \<longleftrightarrow>
     lt_cell (prev_at (c_rsi cols) t) (Some oversold) \<and>
     le_cell (Some oversold) (cell_at (c_rsi cols) t)"

definition overbought_cross_down :: "derived \<Rightarrow> real \<Rightarrow> nat \<Rightarrow> bool" where
  "overbought_cross_down cols overbought t \<longleftrightarrow>
     lt_cell (Some overbought) (prev_at (c_rsi cols) t) \<and>
     le_cell (cell_at (c_rsi cols) t) (Some overbought)"

definition fast_above_slow :: "derived \<Rightarrow> nat \<Rightarrow> bool" where
  "fast_above_slow cols t \<longleftrightarrow> lt_cell (cell_at (c_ema_slow cols) t) (cell_at (c_ema_fast cols) t)"

definition fast_below_slow :: "derived \<Rightarrow> nat \<Rightarrow> bool" where
  "fast_below_slow cols t \<longleftrightarrow> lt_cell (cell_at (c_ema_fast cols) t) (cell_at (c_ema_slow cols) t)"

definition macd_crosses_up :: "derived \<Rightarrow> nat \<Rightarrow> bool" where
  "macd_crosses_up cols t \<longleftrightarrow>
     lt_cell (prev_at (c_macd cols) t) (prev_at (c_macd_signal cols) t) \<and>
     lt_cell (cell_at (c_macd_signal cols) t) (cell_at (c_macd cols) t)"

definition macd_crosses_down :: "derived \<Rightarrow> nat \<Rightarrow> bool" where
  "macd_crosses_down cols t \<longleftrightarrow>
     lt_cell (prev_at (c_macd_signal cols) t) (prev_at (c_macd cols) t) \<and>
     lt_cell (cell_at (c_macd cols) t) (cell_at (c_macd_signal cols) t)"

definition buy_trigger :: "derived \<Rightarrow> real \<Rightarrow> nat \<Rightarrow> bool" where
  "buy_trigger cols oversold t \<longleftrightarrow> oversold_cross_up cols oversold t \<and> fast_above_slow cols t"

definition sell_trigger :: "derived \<Rightarrow> real \<Rightarrow> nat \<Rightarrow> bool" where
  "sell_trigger cols overbought t \<longleftrightarrow>
     overbought_cross_down cols overbought t \<and> fast_below_slow cols t"

definition spec_signal :: "derived \<Rightarrow> real \<Rightarrow> real \<Rightarrow> nat \<Rightarrow> string" where
  "spec_signal cols oversold overbought t =
     (if buy_trigger cols oversold t
      then (if macd_crosses_up cols t then ''STRONG BUY'' else ''BUY'')
      else if sell_trigger cols overbought t
      then (if macd_crosses_down cols t then ''STRONG SELL'' else ''SELL'')
      else ''HOLD'')"

text \<open>
  The indicator values of the repository's \<open>test_buy_sell_signals_vectorized\<close>, and its
  four-bar frame.
\<close>

definition test_indicators :: indicators where
  "test_indicators =
     \<lparr>ind_rsi = (\<lambda>closes period. [Some 25, Some 80, Some 65, Some 60]),
      ind_ema = (\<lambda>closes n.
         if n = 12 then [Some 1.2, Some 1.4, Some 0.8, Some 0.6]
         else [Some 1.1, Some 1.3, Some 0.9, Some 0.7]),
      ind_macd = (\<lambda>closes fast slow sig.
         ([Some (-0.1), Some 0.2, Some 0.05, Some (-0.1)],
          [Some 0, Some 0.1, Some 0.1, Some (-0.05)],
          [Some (-0.1), Some 0.1, Some (-0.05), Some (-0.05)]))\<rparr>"

definition test_frame :: dataframe where
  "test_frame =
     \<lparr>df_index = [0, hour, 2 * hour, 3 * hour],
      df_close = Some [100, 101, 102, 103],
      df_signal = None,
      df_other = [''open'', ''high'', ''low'', ''volume'']\<rparr>"

text \<open>The bars the engine replays for a frame that has both columns.\<close>

definition frame_bars :: "dataframe \<Rightarrow> bar list" where
  "frame_bars df =
     (case df_close df of
        None \<Rightarrow> []
      | Some cl \<Rightarrow> (case df_signal df of None \<Rightarrow> [] | Some sg \<Rightarrow> bars_of (df_index df) cl sg))"

text \<open>
  Two invariants of the loop. \<open>entry_inv\<close> holds for every configuration: a non-zero
  position has a non-zero entry price on record. \<open>slot_inv\<close> holds for valid
  configurations: the slot is either FLAT with all the money in cash, or LONG with no
  cash left and a positive entry price and an entry time on record.
\<close>

definition entry_inv :: "state \<Rightarrow> bool" where
  "entry_inv st \<longleftrightarrow>
     (case entry_price st of None \<Rightarrow> position st = 0 | Some e \<Rightarrow> position st = 0 \<or> e \<noteq> 0)"

definition slot_inv :: "state \<Rightarrow> bool" where
  "slot_inv st \<longleftrightarrow>
     (if position st = 0 then 0 < cash st
      else 0 < position st \<and> cash st = 0 \<and> entry_time st \<noteq> None \<and>
           (case entry_price st of None \<Rightarrow> False | Some e \<Rightarrow> 0 < e))"


definition lone_buy_frame :: dataframe where
  "lone_buy_frame =
     \<lparr>df_index = [0], df_close = Some [100], df_signal = Some [''BUY''], df_other = []\<rparr>"


text \<open>A three-bar frame that buys at the first bar and never sells.\<close>

definition open_end_frame :: dataframe where
  "open_end_frame =
     \<lparr>df_index = [0, hour, 2 * hour], df_close = Some [100, 110, 120],
      df_signal = Some [''BUY'', ''HOLD'', ''BUY''], df_other = []\<rparr>"

text \<open>
  The partition of a ledger by the sign of the percentage P&L: a win is strictly
  positive, everything else, zero included, is a loss.
\<close>

definition pct_wins :: "trade list \<Rightarrow> real list" where
  "pct_wins trades = filter (\<lambda>p. 0 < p) (map tr_pnl_pct trades)"

definition pct_losses :: "trade list \<Rightarrow> real list" where
  "pct_losses trades = filter (\<lambda>p. p \<le> 0) (map tr_pnl_pct trades)"

text \<open>
  Two-bar frames that buy and then sell: one at a higher close, one at the same close,
  which is a trade of zero P&L when there is no slippage.
\<close>

definition winning_frame :: dataframe where
  "winning_frame =
     \<lparr>df_index = [0, hour], df_close = Some [100, 120],
      df_signal = Some [''BUY'', ''SELL''], df_other = []\<rparr>"

definition level_frame :: dataframe where
  "level_frame =
     \<lparr>df_index = [0, hour], df_close = Some [100, 100],
      df_signal = Some [''BUY'', ''SELL''], df_other = []\<rparr>"

text \<open>
  Indicator values for two further frames: an upward cross of the oversold threshold
  while the fast line is below the slow one, and an oscillator that is undefined on its
  first bar.
\<close>

definition veto_indicators :: indicators where
  "veto_indicators =
     \<lparr>ind_rsi = (\<lambda>closes period. [Some 25, Some 35]),
      ind_ema = (\<lambda>closes n. if n = 12 then [Some 1, Some 1] else [Some 2, Some 2]),
      ind_macd = (\<lambda>closes fast slow sig.
         ([Some (-1), Some (-1)], [Some 0, Some 0], [Some (-1), Some (-1)]))\<rparr>"

definition warmup_indicators :: indicators where
  "warmup_indicators =
     \<lparr>ind_rsi = (\<lambda>closes period. [None, Some 35, Some 25, Some 40]),
      ind_ema = (\<lambda>closes n.
         if n = 12 then [Some 2, Some 2, Some 2, Some 2] else [Some 1, Some 1, Some 1, Some 1]),
      ind_macd = (\<lambda>closes fast slow sig.
         ([Some 1, Some 1, Some 1, Some 1], [Some 0, Some 0, Some 0, Some 0],
          [Some 1, Some 1, Some 1, Some 1]))\<rparr>"

definition two_bar_frame :: dataframe where
  "two_bar_frame =
     \<lparr>df_index = [0, hour], df_close = Some [100, 101], df_signal = None,
      df_other = [''open'', ''high'', ''low'', ''volume'']\<rparr>"

definition one_bar_frame :: dataframe where
  "one_bar_frame =
     \<lparr>df_index = [0], df_close = Some [100], df_signal = None,
      df_other = [''open'', ''high'', ''low'', ''volume'']\<rparr>"

text \<open>The \<open>signal\<close> column of what the deriver returns, empty when none was added.\<close>

definition signal_of :: "error + enriched \<Rightarrow> string list" where
  "signal_of r =
     (case r of
        Inl e \<Rightarrow> []
      | Inr out \<Rightarrow> (case out of Copy df \<Rightarrow> [] | Enriched idx cl cols \<Rightarrow> c_signal cols))"

section \<open>Properties\<close>

subsection \<open>The defining equations on a DatetimeIndex\<close>

text \<open>
  On a DatetimeIndex \<open>total_seconds\<close> never fails, and the functions of the engine
  satisfy the equations of the source with the durations read off directly.
\<close>

lemma duration_hrs_on_datetime:
  "duration_hrs_on DatetimeIndex timestamp et = Inr (duration_hrs timestamp et)"
  by (simp add: duration_hrs_on_def duration_hrs_def timedelta_seconds_def split: option.splits)

lemma exposure_pct_on_datetime:
  "exposure_pct_on DatetimeIndex trades ets = Inr (exposure_pct trades ets)"
  by (simp add: exposure_pct_on_def exposure_pct_def timedelta_seconds_def Let_def)

lemma trade_step_eq:
  "trade_step cfg st b =
     (case b of (timestamp, price, signal) \<Rightarrow>
        if position st = 0 \<and> signal \<in> buy_set cfg then
          (let commission_fee = cash st * commission cfg;
               cash_after_fee = cash st - commission_fee;
               effective_price = price * (1 + slippage cfg)
           in case py_div cash_after_fee effective_price of
                Inl e \<Rightarrow> Inl e
              | Inr pos \<Rightarrow>
                  Inr (st\<lparr>cash := cash_after_fee - pos * effective_price,
                          position := pos,
                          entry_price := Some effective_price,
                          entry_time := Some timestamp\<rparr>))
        else if 0 < position st \<and> signal \<in> sell_set cfg then
          (let effective_price = price * (1 - slippage cfg);
               gross_proceeds = position st * effective_price;
               commission_fee = gross_proceeds * commission cfg;
               proceeds_net = gross_proceeds - commission_fee
           in case entry_price st of
                None \<Rightarrow> Inl TypeError
              | Some ep \<Rightarrow>
                  (case py_div (effective_price - ep) ep of
                     Inl e \<Rightarrow> Inl e
                   | Inr pnl_decimal \<Rightarrow>
                       Inr (st\<lparr>pnl_decimals := pnl_decimals st @ [pnl_decimal],
                               trade_log := trade_log st @
                                 [\<lparr>tr_entry_time = entry_time st,
                                   tr_exit_time = timestamp,
                                   tr_entry_price = ep,
                                   tr_exit_price = effective_price,
                                   tr_pnl_pct = pnl_decimal * 100,
                                   tr_duration_hrs = duration_hrs timestamp (entry_time st)\<rparr>],
                               cash := cash st + proceeds_net,
                               position := 0,
                               entry_price := None,
                               entry_time := None\<rparr>)))
        else Inr st)"
  unfolding trade_step_def trade_step_on_def duration_hrs_on_datetime sum.case
  by (rule refl)

lemma step_eq:
  "step cfg st b =
     (case b of (timestamp, price, signal) \<Rightarrow>
        if price \<le> 0 then Inl (ValueError ''Close prices must be positive for backtesting'')
        else (case trade_step cfg st b of
                Inl e \<Rightarrow> Inl e
              | Inr st' \<Rightarrow> Inr (mark_equity st' b)))"
  unfolding step_def step_on_def trade_step_def
  by (rule refl)

lemma replay_simps [simp]:
  "replay cfg st [] = Inr st"
  "replay cfg st (b # bs) =
     (case step cfg st b of Inl e \<Rightarrow> Inl e | Inr st' \<Rightarrow> replay cfg st' bs)"
  unfolding replay_def step_def
  by simp_all

lemma forced_exit_eq:
  "forced_exit cfg bars st =
     (if 0 < position st \<and> entry_price st \<noteq> None then
        (case bars of
           [] \<Rightarrow> Inl IndexError
         | _ # _ \<Rightarrow>
             (let ep = the (entry_price st);
                  final_timestamp = fst (last bars);
                  price = fst (snd (last bars));
                  effective_price = price * (1 - slippage cfg);
                  gross_proceeds = position st * effective_price;
                  commission_fee = gross_proceeds * commission cfg;
                  proceeds_net = gross_proceeds - commission_fee
              in case py_div (effective_price - ep) ep of
                   Inl e \<Rightarrow> Inl e
                 | Inr pnl_decimal \<Rightarrow>
                     Inr (st\<lparr>pnl_decimals := pnl_decimals st @ [pnl_decimal],
                             trade_log := trade_log st @
                               [\<lparr>tr_entry_time = entry_time st,
                                 tr_exit_time = final_timestamp,
                                 tr_entry_price = ep,
                                 tr_exit_price = effective_price,
                                 tr_pnl_pct = pnl_decimal * 100,
                                 tr_duration_hrs =
                                   duration_hrs final_timestamp (entry_time st)\<rparr>],
                             cash := cash st + proceeds_net,
                             position := 0,
                             entry_price := None,
                             entry_time := None,
                             equity_curve :=
                               (if equity_curve st \<noteq> []
                                then (equity_curve st)
                                       [length (equity_curve st) - 1 := cash st + proceeds_net]
                                else equity_curve st)\<rparr>)))
      else Inr st)"
  unfolding forced_exit_def forced_exit_on_def duration_hrs_on_datetime sum.case
  by (rule refl)

lemma compute_metrics_eq:
  "compute_metrics cfg st =
     (let final_equity = cash st;
          pnl = pnl_decimals st;
          total_trades = length pnl;
          wins = wins_of pnl;
          losses = losses_of pnl;
          durations = map tr_duration_hrs (trade_log st)
      in case win_loss_ratio pnl of
           Inl e \<Rightarrow> Inl e
         | Inr wl \<Rightarrow>
             Inr \<lparr>m_total_trades = total_trades,
                  m_win_rate =
                    (if total_trades \<noteq> 0
                     then real (length wins) / real total_trades * 100 else 0),
                  m_avg_gain = (if wins \<noteq> [] then mean wins * 100 else 0),
                  m_avg_loss = (if losses \<noteq> [] then mean losses * 100 else 0),
                  m_profit_factor = profit_factor pnl,
                  m_net_return = (final_equity / initial_balance cfg - 1) * 100,
                  m_max_drawdown = max_drawdown st * 100,
                  m_final_balance = final_equity,
                  m_gross_gain = sum_list (filter (\<lambda>p. 0 < p) pnl) * 100,
                  m_gross_loss = \<bar>sum_list (filter (\<lambda>p. p < 0) pnl)\<bar> * 100,
                  m_best_trade = (if pnl \<noteq> [] then list_max pnl * 100 else 0),
                  m_worst_trade = (if pnl \<noteq> [] then list_min pnl * 100 else 0),
                  m_win_loss_ratio = wl,
                  m_initial_balance = initial_balance cfg,
                  m_avg_hold_hours = (if trade_log st \<noteq> [] then mean durations else 0),
                  m_median_hold_hours = (if trade_log st \<noteq> [] then median durations else 0),
                  m_exposure_pct = exposure_pct (trade_log st) (equity_timestamps st)\<rparr>)"
  unfolding compute_metrics_def compute_metrics_on_def exposure_pct_on_datetime sum.case
  by (rule refl)

lemma run_bars_eq:
  "run_bars cfg bars =
     (case replay cfg (init_state cfg) bars of
        Inl e \<Rightarrow> Inl e
      | Inr st \<Rightarrow>
          (case forced_exit cfg bars st of
             Inl e \<Rightarrow> Inl e
           | Inr st' \<Rightarrow>
               (case compute_metrics cfg st' of
                  Inl e \<Rightarrow> Inl e
                | Inr m \<Rightarrow>
                    Inr (m, trade_log st', zip (equity_timestamps st') (equity_curve st')))))"
  unfolding run_bars_def run_bars_on_def replay_def forced_exit_def compute_metrics_def
  by (rule refl)

lemma backtest_signals_eq:
  "backtest_signals df cfg =
     (if initial_balance cfg \<le> 0 then Inl (ValueError ''initial_balance must be > 0'')
      else if df_empty df then Inr (empty_metrics (initial_balance cfg), [], [])
      else (case (df_close df, df_signal df) of
              (Some cl, Some sg) \<Rightarrow> run_bars cfg (bars_of (df_index df) cl sg)
            | _ \<Rightarrow> Inl (ValueError ''DataFrame must include 'close' and 'signal' columns'')))"
  unfolding backtest_signals_def backtest_signals_on_def run_bars_def
  by (rule refl)

text \<open>Unfolding sets for evaluating the model on concrete frames.\<close>

lemmas eval_defs =
  default_config_def init_state_def valid_config_def fractional_def flat_def long_def
  buy_set_def sell_set_def upper_def upper_char_def mark_equity_def hour_def
  total_seconds_def

lemmas frame_defs =
  frame_bars_def bars_of_def sort_index_def hour_def upper_def upper_char_def df_empty_def

lemmas run_defs =
  run_bars_eq init_state_def step_eq trade_step_eq py_div_def Let_def
  buy_set_def sell_set_def upper_def upper_char_def mark_equity_def forced_exit_eq
  duration_hrs_def total_seconds_def

lemmas metric_defs =
  compute_metrics_eq Let_def win_loss_ratio_def profit_factor_def
  wins_of_def losses_of_def py_div_def np_div_def mean_def list_max_def list_min_def
  median_def exposure_pct_def total_seconds_def

lemmas deriver_defs =
  rsi_signal_def df_empty_def sort_index_def hour_def reindex_def Let_def signal_columns_def
  divergence_column_def shift1_def lt_scalar_def le_scalar_def gt_scalar_def ge_scalar_def
  lt_series_def gt_series_def lt_cell_def notna_def and_mask_def assign_where_def

subsection \<open>The empty table and the order of the checks\<close>

lemma win_loss_ratio_total:
  "win_loss_ratio pnl =
     Inr (if losses_of pnl \<noteq> []
          then Fin (real (length (wins_of pnl)) / real (length (losses_of pnl)))
          else if wins_of pnl \<noteq> [] then PosInf else Fin 0)"
  by (simp add: win_loss_ratio_def Let_def py_div_def)

lemma compute_metrics_total: "\<exists>m. compute_metrics cfg st = Inr m"
  by (simp add: compute_metrics_eq Let_def win_loss_ratio_total)

lemma compute_metrics_final_balance:
  "compute_metrics cfg st = Inr m \<Longrightarrow> m_final_balance m = cash st"
  by (auto simp: compute_metrics_eq Let_def win_loss_ratio_total)

text \<open>
  C6. On an empty input table the engine returns without raising: no trade, a win rate,
  net return and maximum drawdown of zero, the final balance equal to the initial
  balance, every derived metric zero (the \<open>initial_balance\<close> entry repeats the
  configured balance), an empty ledger and an empty equity curve. The balance is
  strictly positive, as the engine's first check demands.
\<close>

theorem empty_input_is_terminal:
  assumes "df_empty df" and "0 < initial_balance cfg"
  shows "backtest_signals df cfg =
           Inr (\<lparr>m_total_trades = 0, m_win_rate = 0, m_avg_gain = 0, m_avg_loss = 0,
                 m_profit_factor = Fin 0, m_net_return = 0, m_max_drawdown = 0,
                 m_final_balance = initial_balance cfg, m_gross_gain = 0, m_gross_loss = 0,
                 m_best_trade = 0, m_worst_trade = 0, m_win_loss_ratio = Fin 0,
                 m_initial_balance = initial_balance cfg, m_avg_hold_hours = 0,
                 m_median_hold_hours = 0, m_exposure_pct = 0\<rparr>, [], [])"
  using assms by (simp add: backtest_signals_eq empty_metrics_def)

theorem empty_input_is_terminal_witness:
  "backtest_signals \<lparr>df_index = [], df_close = Some [], df_signal = Some [], df_other = []\<rparr>
       (default_config 500) =
           Inr (\<lparr>m_total_trades = 0, m_win_rate = 0, m_avg_gain = 0, m_avg_loss = 0,
                 m_profit_factor = Fin 0, m_net_return = 0, m_max_drawdown = 0,
                 m_final_balance = 500, m_gross_gain = 0, m_gross_loss = 0,
                 m_best_trade = 0, m_worst_trade = 0, m_win_loss_ratio = Fin 0,
                 m_initial_balance = 500, m_avg_hold_hours = 0,
                 m_median_hold_hours = 0, m_exposure_pct = 0\<rparr>, [], [])"
  using empty_input_is_terminal
     [of "\<lparr>df_index = [], df_close = Some [], df_signal = Some [], df_other = []\<rparr>"
         "default_config 500"]
  by (simp add: df_empty_def default_config_def)

lemma trade_step_errors:
  "trade_step cfg st b = Inl e \<Longrightarrow> e = ZeroDivisionError \<or> e = TypeError"
  by (auto simp: trade_step_eq Let_def py_div_def split: prod.splits if_splits option.splits)

lemma step_errors:
  "step cfg st b = Inl e \<Longrightarrow>
     e = ValueError ''Close prices must be positive for backtesting'' \<or>
     e = ZeroDivisionError \<or> e = TypeError"
  by (auto simp: step_eq split: prod.splits if_splits sum.splits dest: trade_step_errors)

lemma replay_errors:
  "replay cfg st bs = Inl e \<Longrightarrow>
     e = ValueError ''Close prices must be positive for backtesting'' \<or>
     e = ZeroDivisionError \<or> e = TypeError"
proof (induction bs arbitrary: st)
  case Nil
  then show ?case by simp
next
  case (Cons b bs)
  show ?case
  proof (cases "step cfg st b")
    case (Inl e')
    with Cons.prems have "e' = e" by simp
    with Inl show ?thesis using step_errors by blast
  next
    case (Inr st')
    with Cons.prems have "replay cfg st' bs = Inl e" by simp
    then show ?thesis by (rule Cons.IH)
  qed
qed

lemma forced_exit_errors:
  "forced_exit cfg bars st = Inl e \<Longrightarrow> e = ZeroDivisionError \<or> e = IndexError"
  by (auto simp: forced_exit_eq Let_def py_div_def split: if_splits list.splits)

lemma run_bars_errors:
  assumes "run_bars cfg bars = Inl e"
  shows "e = ValueError ''Close prices must be positive for backtesting'' \<or>
         e = ZeroDivisionError \<or> e = TypeError \<or> e = IndexError"
proof (cases "replay cfg (init_state cfg) bars")
  case (Inl e')
  with assms have "e' = e" by (simp add: run_bars_eq)
  with Inl show ?thesis using replay_errors by blast
next
  case st: (Inr st)
  show ?thesis
  proof (cases "forced_exit cfg bars st")
    case (Inl e')
    with assms st have "e' = e" by (simp add: run_bars_eq)
    with Inl show ?thesis using forced_exit_errors by blast
  next
    case (Inr st')
    obtain m where "compute_metrics cfg st' = Inr m"
      using compute_metrics_total by blast
    with assms st Inr show ?thesis by (simp add: run_bars_eq)
  qed
qed

text \<open>
  C10. The empty-input test comes before the required-columns test: every empty table,
  with or without \<open>close\<close> and \<open>signal\<close>, gives the zero-valued terminal result
  (for a strictly positive balance), and the missing-columns error is raised for
  non-empty tables only.
\<close>

theorem empty_check_precedes_columns_check:
  "(0 < initial_balance cfg \<and> df_empty df \<longrightarrow>
      backtest_signals df cfg = Inr (empty_metrics (initial_balance cfg), [], [])) \<and>
   (backtest_signals df cfg =
      Inl (ValueError ''DataFrame must include 'close' and 'signal' columns'') \<longrightarrow>
      \<not> df_empty df \<and> (df_close df = None \<or> df_signal df = None))"
proof (intro conjI impI)
  assume "0 < initial_balance cfg \<and> df_empty df"
  then show "backtest_signals df cfg = Inr (empty_metrics (initial_balance cfg), [], [])"
    by (simp add: backtest_signals_eq)
next
  assume err: "backtest_signals df cfg =
      Inl (ValueError ''DataFrame must include 'close' and 'signal' columns'')"
  then show "\<not> df_empty df"
    by (auto simp: backtest_signals_eq split: if_splits)
  show "df_close df = None \<or> df_signal df = None"
  proof (rule ccontr)
    assume "\<not> (df_close df = None \<or> df_signal df = None)"
    then obtain cl sg where cols: "df_close df = Some cl" "df_signal df = Some sg"
      by auto
    with err have "run_bars cfg (bars_of (df_index df) cl sg) =
        Inl (ValueError ''DataFrame must include 'close' and 'signal' columns'')"
      by (auto simp: backtest_signals_eq split: if_splits)
    from run_bars_errors[OF this] show False by simp
  qed
qed

theorem empty_check_precedes_columns_check_witness:
  "backtest_signals \<lparr>df_index = [], df_close = None, df_signal = None, df_other = [''open'']\<rparr>
       (default_config 500) = Inr (empty_metrics 500, [], []) \<and>
   backtest_signals \<lparr>df_index = [0], df_close = None, df_signal = None, df_other = []\<rparr>
       (default_config 500) = Inr (empty_metrics 500, [], []) \<and>
   backtest_signals \<lparr>df_index = [0], df_close = Some [100], df_signal = None, df_other = []\<rparr>
       (default_config 500) =
     Inl (ValueError ''DataFrame must include 'close' and 'signal' columns'') \<and>
   \<not> df_empty \<lparr>df_index = [0], df_close = Some [100], df_signal = None, df_other = []\<rparr>"
  using empty_check_precedes_columns_check
     [of "default_config 500"
         "\<lparr>df_index = [], df_close = None, df_signal = None, df_other = [''open'']\<rparr>"]
    empty_check_precedes_columns_check
     [of "default_config 500"
         "\<lparr>df_index = [0], df_close = None, df_signal = None, df_other = []\<rparr>"]
    empty_check_precedes_columns_check
     [of "default_config 500"
         "\<lparr>df_index = [0], df_close = Some [100], df_signal = None, df_other = []\<rparr>"]
  by (simp add: df_empty_def default_config_def backtest_signals_eq)

subsection \<open>Which runs raise on a DatetimeIndex\<close>

lemma mark_equity_fields [simp]:
  "cash (mark_equity st b) = cash st"
  "position (mark_equity st b) = position st"
  "entry_price (mark_equity st b) = entry_price st"
  "entry_time (mark_equity st b) = entry_time st"
  "trade_log (mark_equity st b) = trade_log st"
  "pnl_decimals (mark_equity st b) = pnl_decimals st"
  by (simp_all add: mark_equity_def Let_def split: prod.splits)

lemma mark_equity_curve:
  "equity_curve (mark_equity st b) = equity_curve st @ [cash st + position st * fst (snd b)]"
  "equity_timestamps (mark_equity st b) = equity_timestamps st @ [fst b]"
  by (simp_all add: mark_equity_def Let_def split: prod.splits)

lemma trade_step_entry_inv:
  "entry_inv st \<Longrightarrow> trade_step cfg st b = Inr st' \<Longrightarrow> entry_inv st'"
  by (auto simp: trade_step_eq entry_inv_def Let_def py_div_def
           split: prod.splits if_splits option.splits)

lemma mark_equity_entry_inv [simp]: "entry_inv (mark_equity st b) = entry_inv st"
  by (simp add: entry_inv_def split: option.splits)

lemma step_Inr_iff:
  "step cfg st b = Inr st' \<longleftrightarrow>
     0 < fst (snd b) \<and> (\<exists>st1. trade_step cfg st b = Inr st1 \<and> st' = mark_equity st1 b)"
  by (auto simp: step_eq split: prod.splits sum.splits)

lemma step_entry_inv:
  "entry_inv st \<Longrightarrow> step cfg st b = Inr st' \<Longrightarrow> entry_inv st'"
  by (auto simp: step_Inr_iff dest: trade_step_entry_inv)

lemma replay_entry_inv:
  "entry_inv st \<Longrightarrow> replay cfg st bs = Inr st' \<Longrightarrow> entry_inv st'"
proof (induction bs arbitrary: st)
  case Nil
  then show ?case by simp
next
  case (Cons b bs)
  then show ?case
    by (auto split: sum.splits dest: step_entry_inv)
qed

lemma init_entry_inv: "entry_inv (init_state cfg)"
  by (simp add: entry_inv_def init_state_def)

lemma trade_step_ok:
  assumes "entry_inv st" and "slippage cfg \<noteq> - 1" and "0 < fst (snd b)"
  shows "\<exists>st'. trade_step cfg st b = Inr st'"
  using assms
  by (auto simp: trade_step_eq entry_inv_def Let_def py_div_def
           split: prod.splits option.splits)

lemma step_ok:
  assumes "entry_inv st" and "slippage cfg \<noteq> - 1" and "0 < fst (snd b)"
  shows "\<exists>st'. step cfg st b = Inr st'"
proof -
  obtain st1 where "trade_step cfg st b = Inr st1"
    using trade_step_ok[OF assms] by blast
  with assms(3) show ?thesis
    by (simp add: step_Inr_iff)
qed

lemma replay_ok:
  assumes "slippage cfg \<noteq> - 1"
  shows "entry_inv st \<Longrightarrow> closes_positive bs \<Longrightarrow> \<exists>st'. replay cfg st bs = Inr st'"
proof (induction bs arbitrary: st)
  case Nil
  then show ?case by simp
next
  case (Cons b bs)
  from Cons.prems have pos: "0 < fst (snd b)" and rest: "closes_positive bs"
    by (simp_all add: closes_positive_def)
  obtain st1 where st1: "step cfg st b = Inr st1"
    using step_ok[OF Cons.prems(1) assms pos] by blast
  have "entry_inv st1" using Cons.prems(1) st1 by (rule step_entry_inv)
  from Cons.IH[OF this rest] st1 show ?case by simp
qed

lemma replay_append:
  "replay cfg st (xs @ ys) =
     (case replay cfg st xs of Inl e \<Rightarrow> Inl e | Inr st' \<Rightarrow> replay cfg st' ys)"
  by (induction xs arbitrary: st) (auto split: sum.splits)




lemma forced_exit_ok:
  assumes "entry_inv st" and "bars \<noteq> []"
  shows "\<exists>st'. forced_exit cfg bars st = Inr st'"
  using assms
  by (cases "entry_price st")
     (auto simp: forced_exit_eq entry_inv_def Let_def py_div_def split: list.splits)




lemma backtest_signals_frame_bars:
  "0 < initial_balance cfg \<Longrightarrow> \<not> df_empty df \<Longrightarrow> df_close df \<noteq> None \<Longrightarrow>
   df_signal df \<noteq> None \<Longrightarrow> backtest_signals df cfg = run_bars cfg (frame_bars df)"
  by (auto simp: backtest_signals_eq frame_bars_def)


text \<open>
  A slippage rate of \<open>-1\<close> is no fractional rate: the fill price is zero, and the
  division that sizes the position raises \<open>ZeroDivisionError\<close>.
\<close>

lemma minus_one_slippage_raises:
  "backtest_signals lone_buy_frame ((default_config 1000)\<lparr>slippage := - 1\<rparr>) =
     Inl ZeroDivisionError \<and>
   \<not> (initial_balance ((default_config 1000)\<lparr>slippage := - 1\<rparr>) \<le> 0 \<or>
      (\<not> df_empty lone_buy_frame \<and>
       (df_close lone_buy_frame = None \<or> df_signal lone_buy_frame = None)) \<or>
      (\<not> df_empty lone_buy_frame \<and> \<not> closes_positive (frame_bars lone_buy_frame)))"
  by (simp add: backtest_signals_eq run_bars_eq lone_buy_frame_def default_config_def
        df_empty_def frame_bars_def bars_of_def sort_index_def closes_positive_def
        step_eq trade_step_eq buy_set_def upper_def upper_char_def py_div_def
        init_state_def)

subsection \<open>The transitions of the position slot\<close>

lemma mark_equity_slot_inv [simp]: "slot_inv (mark_equity st b) = slot_inv st"
  by (simp add: slot_inv_def split: option.splits)

lemma trade_step_buy:
  assumes "position st = 0" and "signal \<in> buy_set cfg" and "price * (1 + slippage cfg) \<noteq> 0"
  shows "trade_step cfg st (timestamp, price, signal) =
           Inr (st\<lparr>cash := (cash st - cash st * commission cfg)
                          - (cash st - cash st * commission cfg) / (price * (1 + slippage cfg))
                            * (price * (1 + slippage cfg)),
                   position := (cash st - cash st * commission cfg) / (price * (1 + slippage cfg)),
                   entry_price := Some (price * (1 + slippage cfg)),
                   entry_time := Some timestamp\<rparr>)"
  using assms by (simp add: trade_step_eq Let_def py_div_def)

lemma trade_step_sell:
  assumes "0 < position st" and "signal \<in> sell_set cfg" and "entry_price st = Some ep"
    and "ep \<noteq> 0"
  shows "trade_step cfg st (timestamp, price, signal) =
           Inr (st\<lparr>pnl_decimals := pnl_decimals st @ [(price * (1 - slippage cfg) - ep) / ep],
                   trade_log := trade_log st @
                     [\<lparr>tr_entry_time = entry_time st,
                       tr_exit_time = timestamp,
                       tr_entry_price = ep,
                       tr_exit_price = price * (1 - slippage cfg),
                       tr_pnl_pct = (price * (1 - slippage cfg) - ep) / ep * 100,
                       tr_duration_hrs = duration_hrs timestamp (entry_time st)\<rparr>],
                   cash := cash st + (position st * (price * (1 - slippage cfg))
                            - position st * (price * (1 - slippage cfg)) * commission cfg),
                   position := 0,
                   entry_price := None,
                   entry_time := None\<rparr>)"
  using assms by (simp add: trade_step_eq Let_def py_div_def)

lemma trade_step_idle:
  assumes "\<not> (position st = 0 \<and> signal \<in> buy_set cfg)"
    and "\<not> (0 < position st \<and> signal \<in> sell_set cfg)"
  shows "trade_step cfg st (timestamp, price, signal) = Inr st"
  using assms by (auto simp: trade_step_eq)

lemma fill_price_positive:
  assumes "valid_config cfg" and "0 < price"
  shows "0 < price * (1 + slippage cfg)" and "0 < price * (1 - slippage cfg)"
  using assms by (simp_all add: valid_config_def fractional_def)

lemma entry_quantity_positive:
  assumes "valid_config cfg" and "0 < price" and "0 < c"
  shows "0 < (c - c * commission cfg) / (price * (1 + slippage cfg))"
proof -
  have "0 < c * (1 - commission cfg)"
    using assms by (simp add: valid_config_def fractional_def)
  then have "0 < c - c * commission cfg" by (simp add: algebra_simps)
  then show ?thesis using fill_price_positive(1)[OF assms(1,2)] by simp
qed

lemma exit_proceeds_positive:
  assumes "valid_config cfg" and "0 < price" and "0 < q"
  shows "0 < q * (price * (1 - slippage cfg)) - q * (price * (1 - slippage cfg)) * commission cfg"
proof -
  have "0 < q * (price * (1 - slippage cfg))"
    using assms(3) fill_price_positive(2)[OF assms(1,2)] by simp
  moreover have "0 < 1 - commission cfg"
    using assms(1) by (simp add: valid_config_def fractional_def)
  ultimately have "0 < q * (price * (1 - slippage cfg)) * (1 - commission cfg)"
    by (rule mult_pos_pos)
  then show ?thesis by (simp add: algebra_simps)
qed

lemma trade_step_slot_inv:
  assumes cfg: "valid_config cfg" and inv: "slot_inv st" and price: "0 < fst (snd b)"
    and step: "trade_step cfg st b = Inr st'"
  shows "slot_inv st'"
proof -
  obtain timestamp price signal where b: "b = (timestamp, price, signal)"
    by (cases b) auto
  with price have p: "0 < price" by simp
  note eff = fill_price_positive[OF cfg p]
  show ?thesis
  proof (cases "position st = 0 \<and> signal \<in> buy_set cfg")
    case True
    then have c: "0 < cash st" using inv by (simp add: slot_inv_def)
    define eff where "eff = price * (1 + slippage cfg)"
    define caf where "caf = cash st - cash st * commission cfg"
    have e: "0 < eff" using eff(1) by (simp add: eff_def)
    have q: "0 < caf / eff"
      using entry_quantity_positive[OF cfg p c] by (simp add: eff_def caf_def)
    have "trade_step cfg st b =
            Inr (st\<lparr>cash := caf - caf / eff * eff, position := caf / eff,
                    entry_price := Some eff, entry_time := Some timestamp\<rparr>)"
      unfolding b eff_def caf_def using True eff(1) by (intro trade_step_buy) auto
    with step have "st' = st\<lparr>cash := caf - caf / eff * eff, position := caf / eff,
                    entry_price := Some eff, entry_time := Some timestamp\<rparr>"
      by simp
    then show ?thesis using q e by (auto simp: slot_inv_def)
  next
    case nb: False
    show ?thesis
    proof (cases "0 < position st \<and> signal \<in> sell_set cfg")
      case True
      then obtain ep where ep: "entry_price st = Some ep" "0 < ep" and c0: "cash st = 0"
        using inv by (auto simp: slot_inv_def split: option.splits if_splits)
      define net where "net = position st * (price * (1 - slippage cfg))
                            - position st * (price * (1 - slippage cfg)) * commission cfg"
      have n: "0 < net"
        using exit_proceeds_positive[OF cfg p, of "position st"] True by (simp add: net_def)
      have "trade_step cfg st b =
           Inr (st\<lparr>pnl_decimals := pnl_decimals st @ [(price * (1 - slippage cfg) - ep) / ep],
                   trade_log := trade_log st @
                     [\<lparr>tr_entry_time = entry_time st,
                       tr_exit_time = timestamp,
                       tr_entry_price = ep,
                       tr_exit_price = price * (1 - slippage cfg),
                       tr_pnl_pct = (price * (1 - slippage cfg) - ep) / ep * 100,
                       tr_duration_hrs = duration_hrs timestamp (entry_time st)\<rparr>],
                   cash := cash st + net,
                   position := 0,
                   entry_price := None,
                   entry_time := None\<rparr>)"
        unfolding b net_def using True ep by (intro trade_step_sell) auto
      with step have "position st' = 0" "cash st' = cash st + net"
        by auto
      then show ?thesis
        using n c0 by (simp add: slot_inv_def)
    next
      case False
      with nb step have "st' = st" unfolding b by (simp add: trade_step_idle)
      with inv show ?thesis by simp
    qed
  qed
qed

lemma step_slot_inv:
  "valid_config cfg \<Longrightarrow> slot_inv st \<Longrightarrow> step cfg st b = Inr st' \<Longrightarrow> slot_inv st'"
  by (auto simp: step_Inr_iff dest: trade_step_slot_inv)

lemma replay_slot_inv:
  "valid_config cfg \<Longrightarrow> slot_inv st \<Longrightarrow> replay cfg st bs = Inr st' \<Longrightarrow> slot_inv st'"
proof (induction bs arbitrary: st)
  case Nil
  then show ?case by simp
next
  case (Cons b bs)
  then show ?case
    by (auto split: sum.splits dest: step_slot_inv)
qed

lemma init_slot_inv: "valid_config cfg \<Longrightarrow> slot_inv (init_state cfg)"
  by (simp add: slot_inv_def init_state_def valid_config_def)

lemma replay_snoc:
  "replay cfg st (bs @ [b]) =
     (case replay cfg st bs of Inl e \<Rightarrow> Inl e | Inr st' \<Rightarrow> step cfg st' b)"
  by (simp add: replay_append split: sum.splits)

text \<open>
  C1. The engine replays the bars one after the other, and the state after a bar is the
  state before it changed by one transition of a FLAT/LONG machine. For a valid
  configuration, a state \<open>st\<close> reached by replaying the bars \<open>pre\<close>, and a next bar with
  a positive close: while FLAT, a signal of the buy set pays the commission
  \<open>cash * commission\<close>, fills at \<open>close * (1 + slippage)\<close>, buys the cash left divided by
  that price, keeps the remainder as cash and records the fill price and the timestamp
  as entry, and the slot is LONG; while LONG, a signal of the sell set fills at
  \<open>close * (1 - slippage)\<close>, adds the proceeds less commission to the cash, appends a
  trade with \<open>pnl_pct = (exit - entry) / entry * 100\<close> and the duration in hours, and the
  slot is FLAT; any other signal leaves cash, position, entry and ledger as they were.
  After every transition the bar's equity point is recorded. The signals of the bars and
  the two sets are compared in upper case.
\<close>

theorem replay_flat_long_machine:
  assumes "valid_config cfg"
    and "replay cfg (init_state cfg) pre = Inr st"
    and "0 < price"
  shows
    "(flat st \<or> long st) \<and>
     (flat st \<and> signal \<in> buy_set cfg \<longrightarrow>
        replay cfg (init_state cfg) (pre @ [(timestamp, price, signal)]) =
          Inr (mark_equity
                (st\<lparr>cash := (cash st - cash st * commission cfg)
                        - (cash st - cash st * commission cfg) / (price * (1 + slippage cfg))
                          * (price * (1 + slippage cfg)),
                    position :=
                      (cash st - cash st * commission cfg) / (price * (1 + slippage cfg)),
                    entry_price := Some (price * (1 + slippage cfg)),
                    entry_time := Some timestamp\<rparr>)
                (timestamp, price, signal)) \<and>
        0 < (cash st - cash st * commission cfg) / (price * (1 + slippage cfg))) \<and>
     (long st \<and> signal \<in> sell_set cfg \<longrightarrow>
        (\<exists>ep t0. entry_price st = Some ep \<and> entry_time st = Some t0 \<and>
           replay cfg (init_state cfg) (pre @ [(timestamp, price, signal)]) =
             Inr (mark_equity
                   (st\<lparr>pnl_decimals :=
                         pnl_decimals st @ [(price * (1 - slippage cfg) - ep) / ep],
                       trade_log := trade_log st @
                         [\<lparr>tr_entry_time = Some t0,
                           tr_exit_time = timestamp,
                           tr_entry_price = ep,
                           tr_exit_price = price * (1 - slippage cfg),
                           tr_pnl_pct = (price * (1 - slippage cfg) - ep) / ep * 100,
                           tr_duration_hrs = total_seconds (timestamp - t0) / 3600\<rparr>],
                       cash := cash st + (position st * (price * (1 - slippage cfg))
                                - position st * (price * (1 - slippage cfg)) * commission cfg),
                       position := 0,
                       entry_price := None,
                       entry_time := None\<rparr>)
                   (timestamp, price, signal)))) \<and>
     (\<not> (flat st \<and> signal \<in> buy_set cfg) \<and> \<not> (long st \<and> signal \<in> sell_set cfg) \<longrightarrow>
        replay cfg (init_state cfg) (pre @ [(timestamp, price, signal)]) =
          Inr (mark_equity st (timestamp, price, signal)))"
proof -
  have inv: "slot_inv st"
    using assms(1) init_slot_inv[OF assms(1)] assms(2) by (rule replay_slot_inv)
  have next_bar: "replay cfg (init_state cfg) (pre @ [(timestamp, price, signal)]) =
      (case trade_step cfg st (timestamp, price, signal) of
         Inl e \<Rightarrow> Inl e
       | Inr st' \<Rightarrow> Inr (mark_equity st' (timestamp, price, signal)))"
    using assms(2,3) by (simp add: replay_snoc step_eq)
  have slot: "flat st \<or> long st"
    using inv by (auto simp: slot_inv_def flat_def long_def split: if_splits)
  have buy: "replay cfg (init_state cfg) (pre @ [(timestamp, price, signal)]) =
          Inr (mark_equity
                (st\<lparr>cash := (cash st - cash st * commission cfg)
                        - (cash st - cash st * commission cfg) / (price * (1 + slippage cfg))
                          * (price * (1 + slippage cfg)),
                    position :=
                      (cash st - cash st * commission cfg) / (price * (1 + slippage cfg)),
                    entry_price := Some (price * (1 + slippage cfg)),
                    entry_time := Some timestamp\<rparr>)
                (timestamp, price, signal)) \<and>
        0 < (cash st - cash st * commission cfg) / (price * (1 + slippage cfg))"
    if "flat st" and "signal \<in> buy_set cfg"
  proof -
    from that(1) have p0: "position st = 0" by (simp add: flat_def)
    with inv have c: "0 < cash st" by (simp add: slot_inv_def)
    have e: "price * (1 + slippage cfg) \<noteq> 0"
      using fill_price_positive(1)[OF assms(1,3)] by auto
    show ?thesis
      using entry_quantity_positive[OF assms(1,3) c]
      by (simp only: next_bar trade_step_buy[OF p0 that(2) e] sum.case simp_thms)
  qed
  have sell: "\<exists>ep t0. entry_price st = Some ep \<and> entry_time st = Some t0 \<and>
           replay cfg (init_state cfg) (pre @ [(timestamp, price, signal)]) =
             Inr (mark_equity
                   (st\<lparr>pnl_decimals :=
                         pnl_decimals st @ [(price * (1 - slippage cfg) - ep) / ep],
                       trade_log := trade_log st @
                         [\<lparr>tr_entry_time = Some t0,
                           tr_exit_time = timestamp,
                           tr_entry_price = ep,
                           tr_exit_price = price * (1 - slippage cfg),
                           tr_pnl_pct = (price * (1 - slippage cfg) - ep) / ep * 100,
                           tr_duration_hrs = total_seconds (timestamp - t0) / 3600\<rparr>],
                       cash := cash st + (position st * (price * (1 - slippage cfg))
                                - position st * (price * (1 - slippage cfg)) * commission cfg),
                       position := 0,
                       entry_price := None,
                       entry_time := None\<rparr>)
                   (timestamp, price, signal))"
    if "long st" and "signal \<in> sell_set cfg"
  proof -
    from that(1) have q: "0 < position st" by (simp add: long_def)
    with inv obtain ep t0 where
      ep: "entry_price st = Some ep" "ep \<noteq> 0" and t0: "entry_time st = Some t0"
      by (auto simp: slot_inv_def split: option.splits if_splits)
    have "replay cfg (init_state cfg) (pre @ [(timestamp, price, signal)]) =
             Inr (mark_equity
                   (st\<lparr>pnl_decimals :=
                         pnl_decimals st @ [(price * (1 - slippage cfg) - ep) / ep],
                       trade_log := trade_log st @
                         [\<lparr>tr_entry_time = Some t0,
                           tr_exit_time = timestamp,
                           tr_entry_price = ep,
                           tr_exit_price = price * (1 - slippage cfg),
                           tr_pnl_pct = (price * (1 - slippage cfg) - ep) / ep * 100,
                           tr_duration_hrs = total_seconds (timestamp - t0) / 3600\<rparr>],
                       cash := cash st + (position st * (price * (1 - slippage cfg))
                                - position st * (price * (1 - slippage cfg)) * commission cfg),
                       position := 0,
                       entry_price := None,
                       entry_time := None\<rparr>)
                   (timestamp, price, signal))"
      by (simp only: next_bar trade_step_sell[OF q that(2) ep] sum.case t0
            duration_hrs_def option.case)
    with ep(1) t0 show ?thesis by blast
  qed
  have idle: "replay cfg (init_state cfg) (pre @ [(timestamp, price, signal)]) =
          Inr (mark_equity st (timestamp, price, signal))"
    if "\<not> (flat st \<and> signal \<in> buy_set cfg)" and "\<not> (long st \<and> signal \<in> sell_set cfg)"
    using that by (simp add: next_bar trade_step_idle flat_def long_def)
  from slot buy sell idle show ?thesis by blast
qed

theorem replay_flat_long_machine_witness:
  "replay (default_config 1000) (init_state (default_config 1000)) [(0, 100, ''HOLD'')] =
     Inr (mark_equity (init_state (default_config 1000)) (0, 100, ''HOLD'')) \<and>
   position (projr (replay (default_config 1000) (init_state (default_config 1000))
      [(0, 100, ''HOLD''), (hour, 110, ''BUY'')])) = (1000 - 1000 * 0.0007) / (110 * 1.0005) \<and>
   map tr_pnl_pct (trade_log (projr (replay (default_config 1000)
      (init_state (default_config 1000))
      [(0, 100, ''HOLD''), (hour, 110, ''BUY''), (2 * hour, 115, ''SELL'')]))) =
     [(115 * (1 - 0.0005) - 110 * 1.0005) / (110 * 1.0005) * 100]"
proof -
  let ?c = "default_config 1000"
  let ?i = "init_state ?c"
  have v: "valid_config ?c" by (simp add: eval_defs)
  have r0: "replay ?c ?i [] = Inr ?i" by simp
  have r1: "replay ?c ?i [(0, 100, ''HOLD'')] = Inr (mark_equity ?i (0, 100, ''HOLD''))"
    using replay_flat_long_machine[OF v r0, of 100 "''HOLD''" 0]
    by (simp add: eval_defs)
  define st1 where "st1 = mark_equity ?i (0, 100, ''HOLD'')"
  have f1: "flat st1" "cash st1 = 1000"
    by (simp_all add: st1_def eval_defs)
  have r2: "replay ?c ?i ([(0, 100, ''HOLD'')] @ [(hour, 110, ''BUY'')]) =
      Inr (mark_equity
            (st1\<lparr>cash := (cash st1 - cash st1 * commission ?c)
                        - (cash st1 - cash st1 * commission ?c) / (110 * (1 + slippage ?c))
                          * (110 * (1 + slippage ?c)),
                 position := (cash st1 - cash st1 * commission ?c) / (110 * (1 + slippage ?c)),
                 entry_price := Some (110 * (1 + slippage ?c)),
                 entry_time := Some hour\<rparr>) (hour, 110, ''BUY''))"
    using replay_flat_long_machine[OF v r1[folded st1_def], of 110 "''BUY''" hour] f1(1)
    by (simp add: buy_set_def upper_def upper_char_def default_config_def)
  define st2 where "st2 = mark_equity
            (st1\<lparr>cash := (cash st1 - cash st1 * commission ?c)
                        - (cash st1 - cash st1 * commission ?c) / (110 * (1 + slippage ?c))
                          * (110 * (1 + slippage ?c)),
                 position := (cash st1 - cash st1 * commission ?c) / (110 * (1 + slippage ?c)),
                 entry_price := Some (110 * (1 + slippage ?c)),
                 entry_time := Some hour\<rparr>) (hour, 110, ''BUY'')"
  have f2: "long st2" "entry_price st2 = Some (110 * 1.0005)" "trade_log st2 = []"
    "position st2 = (1000 - 1000 * 0.0007) / (110 * 1.0005)"
    by (simp_all add: st2_def f1 long_def default_config_def st1_def init_state_def)
  have r3: "\<exists>ep t0. entry_price st2 = Some ep \<and> entry_time st2 = Some t0 \<and>
      replay ?c ?i (([(0, 100, ''HOLD'')] @ [(hour, 110, ''BUY'')]) @ [(2 * hour, 115, ''SELL'')]) =
        Inr (mark_equity
              (st2\<lparr>pnl_decimals := pnl_decimals st2 @ [(115 * (1 - slippage ?c) - ep) / ep],
                   trade_log := trade_log st2 @
                     [\<lparr>tr_entry_time = Some t0,
                       tr_exit_time = 2 * hour,
                       tr_entry_price = ep,
                       tr_exit_price = 115 * (1 - slippage ?c),
                       tr_pnl_pct = (115 * (1 - slippage ?c) - ep) / ep * 100,
                       tr_duration_hrs = total_seconds (2 * hour - t0) / 3600\<rparr>],
                   cash := cash st2 + (position st2 * (115 * (1 - slippage ?c))
                            - position st2 * (115 * (1 - slippage ?c)) * commission ?c),
                   position := 0,
                   entry_price := None,
                   entry_time := None\<rparr>) (2 * hour, 115, ''SELL''))"
    using replay_flat_long_machine[OF v r2[folded st2_def], of 115 "''SELL''" "2 * hour"] f2(1)
    by (simp add: sell_set_def upper_def upper_char_def default_config_def)
  from r1 have g1: "replay ?c ?i [(0, 100, ''HOLD'')] = Inr (mark_equity ?i (0, 100, ''HOLD''))" .
  have r2': "replay ?c ?i [(0, 100, ''HOLD''), (hour, 110, ''BUY'')] = Inr st2"
    using r2[folded st2_def] by (simp only: append_Cons append_Nil)
  have g2: "position (projr (replay ?c ?i [(0, 100, ''HOLD''), (hour, 110, ''BUY'')])) =
      (1000 - 1000 * 0.0007) / (110 * 1.0005)"
    unfolding r2' by (simp only: sum.sel f2(4))
  from r3 f2(2) obtain t0 where r3':
    "replay ?c ?i [(0, 100, ''HOLD''), (hour, 110, ''BUY''), (2 * hour, 115, ''SELL'')] =
        Inr (mark_equity
              (st2\<lparr>pnl_decimals :=
                     pnl_decimals st2 @ [(115 * (1 - slippage ?c) - 110 * 1.0005) / (110 * 1.0005)],
                   trade_log := trade_log st2 @
                     [\<lparr>tr_entry_time = Some t0,
                       tr_exit_time = 2 * hour,
                       tr_entry_price = 110 * 1.0005,
                       tr_exit_price = 115 * (1 - slippage ?c),
                       tr_pnl_pct =
                         (115 * (1 - slippage ?c) - 110 * 1.0005) / (110 * 1.0005) * 100,
                       tr_duration_hrs = total_seconds (2 * hour - t0) / 3600\<rparr>],
                   cash := cash st2 + (position st2 * (115 * (1 - slippage ?c))
                            - position st2 * (115 * (1 - slippage ?c)) * commission ?c),
                   position := 0,
                   entry_price := None,
                   entry_time := None\<rparr>) (2 * hour, 115, ''SELL''))"
    by (auto simp only: append_Cons append_Nil option.inject)
  have g3: "map tr_pnl_pct (trade_log (projr (replay ?c ?i
      [(0, 100, ''HOLD''), (hour, 110, ''BUY''), (2 * hour, 115, ''SELL'')]))) =
     [(115 * (1 - 0.0005) - 110 * 1.0005) / (110 * 1.0005) * 100]"
    unfolding r3' by (simp add: f2(3) default_config_def)
  from g1 g2 g3 show ?thesis by blast
qed

subsection \<open>The forced exit\<close>

lemma step_curve:
  assumes "step cfg st b = Inr st'"
  shows "equity_timestamps st' = equity_timestamps st @ [fst b]"
    and "length (equity_curve st') = Suc (length (equity_curve st))"
proof -
  from assms obtain st1 where st1: "trade_step cfg st b = Inr st1" "st' = mark_equity st1 b"
    by (auto simp: step_Inr_iff)
  from st1(1) have "equity_timestamps st1 = equity_timestamps st \<and>
      equity_curve st1 = equity_curve st"
    by (auto simp: trade_step_eq Let_def split: prod.splits if_splits sum.splits option.splits)
  with st1(2) show "equity_timestamps st' = equity_timestamps st @ [fst b]"
    and "length (equity_curve st') = Suc (length (equity_curve st))"
    by (simp_all add: mark_equity_curve)
qed

lemma replay_curve:
  "replay cfg st bs = Inr st' \<Longrightarrow>
     equity_timestamps st' = equity_timestamps st @ map fst bs \<and>
     length (equity_curve st') = length (equity_curve st) + length bs"
proof (induction bs arbitrary: st)
  case Nil
  then show ?case by simp
next
  case (Cons b bs)
  then obtain st1 where st1: "step cfg st b = Inr st1" "replay cfg st1 bs = Inr st'"
    by (auto split: sum.splits)
  from Cons.IH[OF st1(2)] step_curve[OF st1(1)] show ?case by simp
qed

lemma replay_init_curve:
  assumes "replay cfg (init_state cfg) bars = Inr st"
  shows "equity_timestamps st = map fst bars" and "length (equity_curve st) = length bars"
  using replay_curve[OF assms] by (simp_all add: init_state_def)

lemma forced_exit_long:
  assumes "0 < position st" and "entry_price st = Some ep" and "ep \<noteq> 0" and "bars \<noteq> []"
    and "equity_curve st \<noteq> []"
  shows "forced_exit cfg bars st =
     Inr (st\<lparr>pnl_decimals :=
               pnl_decimals st @ [(fst (snd (last bars)) * (1 - slippage cfg) - ep) / ep],
             trade_log := trade_log st @
               [\<lparr>tr_entry_time = entry_time st,
                 tr_exit_time = fst (last bars),
                 tr_entry_price = ep,
                 tr_exit_price = fst (snd (last bars)) * (1 - slippage cfg),
                 tr_pnl_pct = (fst (snd (last bars)) * (1 - slippage cfg) - ep) / ep * 100,
                 tr_duration_hrs = duration_hrs (fst (last bars)) (entry_time st)\<rparr>],
             cash := cash st
               + (position st * (fst (snd (last bars)) * (1 - slippage cfg))
                  - position st * (fst (snd (last bars)) * (1 - slippage cfg)) * commission cfg),
             position := 0,
             entry_price := None,
             entry_time := None,
             equity_curve := butlast (equity_curve st) @
               [cash st
                + (position st * (fst (snd (last bars)) * (1 - slippage cfg))
                   - position st * (fst (snd (last bars)) * (1 - slippage cfg))
                     * commission cfg)]\<rparr>)"
proof -
  have upd: "xs \<noteq> [] \<Longrightarrow> xs[length xs - 1 := v] = butlast xs @ [v]" for xs :: "real list" and v
    by (induction xs rule: rev_induct) (simp_all add: list_update_append)
  from assms(4) obtain b bs where "bars = b # bs" by (cases bars) auto
  then show ?thesis
    using assms(1,2,3,5) upd[OF assms(5)]
    by (simp add: forced_exit_eq Let_def py_div_def del: last.simps)
qed

lemma last_zip_snoc:
  assumes "length ts = Suc (length xs)"
  shows "last (zip ts (xs @ [v])) = (last ts, v)"
proof -
  from assms obtain ts' t where ts: "ts = ts' @ [t]" "length ts' = length xs"
    by (cases ts rule: rev_cases) auto
  then show ?thesis by simp
qed

text \<open>
  C2. When the replay of all bars ends LONG, whatever the signal of the last bar, the
  position is sold at the last bar's close less slippage, and commission is taken from
  the proceeds: the ledger gains one trade whose exit time is the last bar's timestamp,
  the last equity point becomes the cash after the sale, and that cash is the final
  balance. Cash and ledger are those a sell signal at the last bar's timestamp and close
  would have produced.
\<close>

theorem forced_exit_liquidates:
  assumes "0 < initial_balance cfg" and "\<not> df_empty df"
    and "df_close df \<noteq> None" and "df_signal df \<noteq> None"
    and "frame_bars df = bars"
    and "replay cfg (init_state cfg) bars = Inr st" and "long st"
    and "exit_price = fst (snd (last bars)) * (1 - slippage cfg)"
    and "net = position st * exit_price - position st * exit_price * commission cfg"
  shows
    "bars \<noteq> [] \<and>
     (\<exists>ep. entry_price st = Some ep \<and>
        trades_of (backtest_signals df cfg) =
          trade_log st @
            [\<lparr>tr_entry_time = entry_time st,
              tr_exit_time = fst (last bars),
              tr_entry_price = ep,
              tr_exit_price = exit_price,
              tr_pnl_pct = (exit_price - ep) / ep * 100,
              tr_duration_hrs = duration_hrs (fst (last bars)) (entry_time st)\<rparr>]) \<and>
     equity_of (backtest_signals df cfg) =
       zip (map fst bars) (butlast (equity_curve st) @ [cash st + net]) \<and>
     last (equity_of (backtest_signals df cfg)) = (fst (last bars), cash st + net) \<and>
     map_option m_final_balance (metrics_of (backtest_signals df cfg)) = Some (cash st + net) \<and>
     (\<forall>sig \<in> sell_set cfg.
        \<exists>st'. trade_step cfg st (fst (last bars), fst (snd (last bars)), sig) = Inr st' \<and>
              cash st' = cash st + net \<and>
              trade_log st' = trades_of (backtest_signals df cfg))"
proof -
  have q: "0 < position st" using assms(7) by (simp add: long_def)
  have inv: "entry_inv st"
    using init_entry_inv assms(6) by (rule replay_entry_inv)
  with q obtain ep where ep: "entry_price st = Some ep" "ep \<noteq> 0"
    by (auto simp: entry_inv_def split: option.splits)
  have ne: "bars \<noteq> []"
  proof
    assume "bars = []"
    with assms(6) have "st = init_state cfg" by simp
    with q show False by (simp add: init_state_def)
  qed
  note curve = replay_init_curve[OF assms(6)]
  from curve(2) ne have ec: "equity_curve st \<noteq> []" by auto
  define tr where "tr =
     \<lparr>tr_entry_time = entry_time st,
       tr_exit_time = fst (last bars),
       tr_entry_price = ep,
       tr_exit_price = exit_price,
       tr_pnl_pct = (exit_price - ep) / ep * 100,
       tr_duration_hrs = duration_hrs (fst (last bars)) (entry_time st)\<rparr>"
  define st' where "st' =
     st\<lparr>pnl_decimals := pnl_decimals st @ [(exit_price - ep) / ep],
        trade_log := trade_log st @ [tr],
        cash := cash st + net,
        position := 0,
        entry_price := None,
        entry_time := None,
        equity_curve := butlast (equity_curve st) @ [cash st + net]\<rparr>"
  have fe: "forced_exit cfg bars st = Inr st'"
    unfolding st'_def tr_def assms(8,9) by (rule forced_exit_long[OF q ep ne ec])
  obtain m where m: "compute_metrics cfg st' = Inr m"
    using compute_metrics_total by blast
  have run: "backtest_signals df cfg =
      Inr (m, trade_log st', zip (equity_timestamps st') (equity_curve st'))"
    using assms(1-4) fe m
    by (simp add: backtest_signals_frame_bars assms(5,6) run_bars_eq)
  have trades: "trades_of (backtest_signals df cfg) = trade_log st @ [tr]"
    by (simp add: run trades_of_def st'_def)
  have equity: "equity_of (backtest_signals df cfg) =
       zip (map fst bars) (butlast (equity_curve st) @ [cash st + net])"
    by (simp add: run equity_of_def st'_def curve(1))
  have len: "length (map fst bars) = Suc (length (butlast (equity_curve st)))"
    using curve(2) ne by (cases bars) simp_all
  have last_point: "last (equity_of (backtest_signals df cfg)) = (fst (last bars), cash st + net)"
    using ne by (simp add: equity last_zip_snoc[OF len] last_map)
  have final: "map_option m_final_balance (metrics_of (backtest_signals df cfg)) =
      Some (cash st + net)"
    using compute_metrics_final_balance[OF m] by (simp add: run metrics_of_def st'_def)
  have same: "\<exists>s'. trade_step cfg st (fst (last bars), fst (snd (last bars)), sig) = Inr s' \<and>
              cash s' = cash st + net \<and>
              trade_log s' = trades_of (backtest_signals df cfg)"
    if "sig \<in> sell_set cfg" for sig
    unfolding trades
    by (simp add: trade_step_sell[OF q that ep] tr_def assms(8,9))
  from ne ep(1) trades equity last_point final same show ?thesis
    unfolding tr_def by blast
qed

theorem forced_exit_liquidates_witness:
  "map tr_exit_time (trades_of (backtest_signals open_end_frame (default_config 1000))) =
     [2 * hour] \<and>
   last (equity_of (backtest_signals open_end_frame (default_config 1000))) =
     (2 * hour, 9993 / 10 / (100 * 1.0005) * (120 * 0.9995) * 0.9993) \<and>
   map_option m_final_balance
     (metrics_of (backtest_signals open_end_frame (default_config 1000))) =
     Some (9993 / 10 / (100 * 1.0005) * (120 * 0.9995) * 0.9993)"
proof -
  let ?c = "default_config 1000"
  let ?bars = "[(0, 100, ''BUY''), (hour, 110, ''HOLD''), (2 * hour, 120, ''BUY'')]"
  define st where "st = projr (replay ?c (init_state ?c) ?bars)"
  have bars: "frame_bars open_end_frame = ?bars"
    by (simp add: frame_bars_def open_end_frame_def bars_of_def sort_index_def hour_def
          upper_def upper_char_def)
  have ev: "replay ?c (init_state ?c) ?bars = Inr st" "position st = 9993 / 10 / (100 * 1.0005)"
    "cash st = 0" "trade_log st = []"
    unfolding st_def
    by (simp_all add: step_eq trade_step_eq py_div_def Let_def eval_defs)
  have l: "long st" by (simp add: long_def ev(2))
  have pre: "0 < initial_balance ?c" "\<not> df_empty open_end_frame"
    "df_close open_end_frame \<noteq> None" "df_signal open_end_frame \<noteq> None"
    by (simp_all add: default_config_def open_end_frame_def df_empty_def)
  note liq = forced_exit_liquidates[OF pre bars ev(1) l refl refl]
  from liq show ?thesis
    by (auto simp: ev default_config_def)
qed

subsection \<open>The ratio metrics\<close>

lemma trade_step_ledger:
  assumes "map tr_pnl_pct (trade_log st) = map (\<lambda>p. p * 100) (pnl_decimals st)"
    and "trade_step cfg st b = Inr st'"
  shows "map tr_pnl_pct (trade_log st') = map (\<lambda>p. p * 100) (pnl_decimals st')"
  using assms
  by (auto simp: trade_step_eq Let_def py_div_def
           split: prod.splits if_splits option.splits)

lemma step_ledger:
  assumes "map tr_pnl_pct (trade_log st) = map (\<lambda>p. p * 100) (pnl_decimals st)"
    and "step cfg st b = Inr st'"
  shows "map tr_pnl_pct (trade_log st') = map (\<lambda>p. p * 100) (pnl_decimals st')"
  using assms by (auto simp: step_Inr_iff dest: trade_step_ledger)

lemma replay_ledger:
  "map tr_pnl_pct (trade_log st) = map (\<lambda>p. p * 100) (pnl_decimals st) \<Longrightarrow>
   replay cfg st bs = Inr st' \<Longrightarrow>
   map tr_pnl_pct (trade_log st') = map (\<lambda>p. p * 100) (pnl_decimals st')"
proof (induction bs arbitrary: st)
  case Nil
  then show ?case by simp
next
  case (Cons b bs)
  then show ?case
    by (auto split: sum.splits dest: step_ledger)
qed

lemma forced_exit_ledger:
  assumes "map tr_pnl_pct (trade_log st) = map (\<lambda>p. p * 100) (pnl_decimals st)"
    and "forced_exit cfg bars st = Inr st'"
  shows "map tr_pnl_pct (trade_log st') = map (\<lambda>p. p * 100) (pnl_decimals st')"
  using assms
  by (auto simp: forced_exit_eq Let_def py_div_def split: if_splits list.splits)

lemma run_bars_ledger:
  assumes "run_bars cfg bars = Inr (m, trades, equity)"
  shows "\<exists>st. compute_metrics cfg st = Inr m \<and> trades = trade_log st \<and>
              map tr_pnl_pct trades = map (\<lambda>p. p * 100) (pnl_decimals st)"
proof -
  from assms obtain st st' where
    r: "replay cfg (init_state cfg) bars = Inr st" and f: "forced_exit cfg bars st = Inr st'"
    and m: "compute_metrics cfg st' = Inr m" and t: "trades = trade_log st'"
    by (auto simp: run_bars_eq split: sum.splits)
  have "map tr_pnl_pct (trade_log st) = map (\<lambda>p. p * 100) (pnl_decimals st)"
    using replay_ledger[OF _ r] by (simp add: init_state_def)
  from forced_exit_ledger[OF this f] m t show ?thesis by blast
qed

lemma filter_scaled:
  "filter (\<lambda>p. 0 < p) (map (\<lambda>p. p * 100) xs) = map (\<lambda>p. p * 100) (filter (\<lambda>p. 0 < p) xs)"
  "filter (\<lambda>p. p \<le> 0) (map (\<lambda>p. p * 100) xs) = map (\<lambda>p. p * 100) (filter (\<lambda>p. p \<le> 0) xs)"
  for xs :: "real list"
  by (induction xs) auto

lemma sum_list_scaled: "sum_list (map (\<lambda>p. p * 100) xs) = sum_list xs * 100" for xs :: "real list"
  by (induction xs) (auto simp: algebra_simps)

lemma profit_factor_cases:
  "profit_factor pnl =
     (if sum_list (losses_of pnl) \<noteq> 0
      then Fin \<bar>sum_list (wins_of pnl) / sum_list (losses_of pnl)\<bar>
      else if wins_of pnl \<noteq> [] then PosInf else Fin 0)"
  by (auto simp: profit_factor_def Let_def np_div_def)

lemma backtest_signals_Inr_cases:
  assumes "backtest_signals df cfg = Inr (m, trades, equity)"
  shows "(m = empty_metrics (initial_balance cfg) \<and> trades = [] \<and> equity = []) \<or>
         (\<exists>bars. run_bars cfg bars = Inr (m, trades, equity))"
  using assms
  by (auto simp: backtest_signals_eq split: if_splits option.splits)

lemma metrics_ratios:
  assumes "compute_metrics cfg st = Inr m"
  shows "m_profit_factor m = profit_factor (pnl_decimals st)"
    and "win_loss_ratio (pnl_decimals st) = Inr (m_win_loss_ratio m)"
  using assms by (auto simp: compute_metrics_eq Let_def split: sum.splits)

lemma ledger_ratio_metrics:
  assumes pct: "map tr_pnl_pct trades = map (\<lambda>p. p * 100) pnl"
    and pf: "pf = profit_factor pnl" and wl: "win_loss_ratio pnl = Inr wlr"
  shows "length (pct_wins trades) + length (pct_losses trades) = length trades"
    and "sum_list (pct_losses trades) \<noteq> 0 \<Longrightarrow>
           pf = Fin \<bar>sum_list (pct_wins trades) / sum_list (pct_losses trades)\<bar>"
    and "sum_list (pct_losses trades) = 0 \<Longrightarrow>
           pf = (if pct_wins trades \<noteq> [] then PosInf else Fin 0)"
    and "pct_losses trades \<noteq> [] \<Longrightarrow>
           wlr = Fin (real (length (pct_wins trades)) / real (length (pct_losses trades)))"
    and "pct_losses trades = [] \<Longrightarrow>
           wlr = (if pct_wins trades \<noteq> [] then PosInf else Fin 0)"
    and "pf \<noteq> NaN" and "wlr \<noteq> NaN"
proof -
  have w: "pct_wins trades = map (\<lambda>p. p * 100) (wins_of pnl)"
    and l: "pct_losses trades = map (\<lambda>p. p * 100) (losses_of pnl)"
    by (simp_all add: pct_wins_def pct_losses_def pct filter_scaled wins_of_def losses_of_def)
  have len: "length (wins_of pnl) + length (losses_of pnl) = length pnl"
    unfolding wins_of_def losses_of_def
    by (induction pnl) auto
  have "length trades = length pnl"
    using arg_cong[OF pct, of length] by simp
  with len show "length (pct_wins trades) + length (pct_losses trades) = length trades"
    by (simp add: w l)
  have wlr: "wlr = (if losses_of pnl \<noteq> []
          then Fin (real (length (wins_of pnl)) / real (length (losses_of pnl)))
          else if wins_of pnl \<noteq> [] then PosInf else Fin 0)"
    using wl by (simp add: win_loss_ratio_total)
  show "pf = Fin \<bar>sum_list (pct_wins trades) / sum_list (pct_losses trades)\<bar>"
    if "sum_list (pct_losses trades) \<noteq> 0"
    using that by (simp add: pf profit_factor_cases w l sum_list_scaled)
  show "pf = (if pct_wins trades \<noteq> [] then PosInf else Fin 0)"
    if "sum_list (pct_losses trades) = 0"
    using that by (simp add: pf profit_factor_cases w l sum_list_scaled)
  show "wlr = Fin (real (length (pct_wins trades)) / real (length (pct_losses trades)))"
    if "pct_losses trades \<noteq> []"
    using that by (simp add: wlr w l)
  show "wlr = (if pct_wins trades \<noteq> [] then PosInf else Fin 0)"
    if "pct_losses trades = []"
    using that by (simp add: wlr w l)
  show "pf \<noteq> NaN" by (simp add: pf profit_factor_cases)
  show "wlr \<noteq> NaN" by (simp add: wlr)
qed

text \<open>
  C4. The trades of a returned ledger split into wins, of strictly positive \<open>pnl_pct\<close>,
  and losses, of \<open>pnl_pct\<close> at most zero, so that a trade of zero P&L is a loss. The
  reported \<open>profit_factor\<close> is the absolute value of the summed winning over the summed
  losing percentages; where that denominator is zero it is infinite if there is a win
  and zero if there is none, so it is infinite for wins without losses and zero for an
  empty ledger. The reported \<open>win_loss_ratio\<close> is the number of wins over the number of
  losses, infinite for wins without losses and zero for an empty ledger. Neither is NaN,
  and computing the metrics raises for no state of the engine.
\<close>

theorem ratio_metrics_total:
  "(\<exists>m'. compute_metrics cfg st = Inr m') \<and>
   (backtest_signals df cfg = Inr (m, trades, equity) \<longrightarrow>
      length (pct_wins trades) + length (pct_losses trades) = length trades \<and>
      (\<forall>t \<in> set trades. tr_pnl_pct t = 0 \<longrightarrow> tr_pnl_pct t \<in> set (pct_losses trades)) \<and>
      (sum_list (pct_losses trades) \<noteq> 0 \<longrightarrow>
         m_profit_factor m =
           Fin \<bar>sum_list (pct_wins trades) / sum_list (pct_losses trades)\<bar>) \<and>
      (sum_list (pct_losses trades) = 0 \<longrightarrow>
         m_profit_factor m = (if pct_wins trades \<noteq> [] then PosInf else Fin 0)) \<and>
      (pct_wins trades \<noteq> [] \<and> pct_losses trades = [] \<longrightarrow> m_profit_factor m = PosInf) \<and>
      (pct_wins trades = [] \<and> pct_losses trades = [] \<longrightarrow> m_profit_factor m = Fin 0) \<and>
      (pct_losses trades \<noteq> [] \<longrightarrow>
         m_win_loss_ratio m =
           Fin (real (length (pct_wins trades)) / real (length (pct_losses trades)))) \<and>
      (pct_wins trades \<noteq> [] \<and> pct_losses trades = [] \<longrightarrow> m_win_loss_ratio m = PosInf) \<and>
      (pct_wins trades = [] \<and> pct_losses trades = [] \<longrightarrow> m_win_loss_ratio m = Fin 0) \<and>
      m_profit_factor m \<noteq> NaN \<and> m_win_loss_ratio m \<noteq> NaN)"
proof (intro conjI impI)
  show "\<exists>m'. compute_metrics cfg st = Inr m'" by (rule compute_metrics_total)
next
  assume run: "backtest_signals df cfg = Inr (m, trades, equity)"
  have "\<exists>pnl. map tr_pnl_pct trades = map (\<lambda>p. p * 100) pnl \<and>
      m_profit_factor m = profit_factor pnl \<and> win_loss_ratio pnl = Inr (m_win_loss_ratio m)"
    using backtest_signals_Inr_cases[OF run]
  proof
    assume "m = empty_metrics (initial_balance cfg) \<and> trades = [] \<and> equity = []"
    then have "map tr_pnl_pct trades = map (\<lambda>p. p * 100) [] \<and>
      m_profit_factor m = profit_factor [] \<and> win_loss_ratio [] = Inr (m_win_loss_ratio m)"
      by (simp add: empty_metrics_def profit_factor_def win_loss_ratio_def wins_of_def
            losses_of_def)
    then show ?thesis by blast
  next
    assume "\<exists>bars. run_bars cfg bars = Inr (m, trades, equity)"
    then obtain bars where "run_bars cfg bars = Inr (m, trades, equity)" by blast
    from run_bars_ledger[OF this] obtain s where
      "compute_metrics cfg s = Inr m" "map tr_pnl_pct trades = map (\<lambda>p. p * 100) (pnl_decimals s)"
      by blast
    with metrics_ratios[of cfg s m] show ?thesis by blast
  qed
  then obtain pnl where pct: "map tr_pnl_pct trades = map (\<lambda>p. p * 100) pnl"
    and pf: "m_profit_factor m = profit_factor pnl"
    and wl: "win_loss_ratio pnl = Inr (m_win_loss_ratio m)"
    by blast
  note facts = ledger_ratio_metrics[OF pct pf wl]
  show "length (pct_wins trades) + length (pct_losses trades) = length trades"
    by (rule facts(1))
  show "\<forall>t \<in> set trades. tr_pnl_pct t = 0 \<longrightarrow> tr_pnl_pct t \<in> set (pct_losses trades)"
    by (auto simp: pct_losses_def)
  show "m_profit_factor m = Fin \<bar>sum_list (pct_wins trades) / sum_list (pct_losses trades)\<bar>"
    if "sum_list (pct_losses trades) \<noteq> 0"
    using that by (rule facts(2))
  show "m_profit_factor m = (if pct_wins trades \<noteq> [] then PosInf else Fin 0)"
    if "sum_list (pct_losses trades) = 0"
    using that by (rule facts(3))
  show "m_profit_factor m = PosInf" if "pct_wins trades \<noteq> [] \<and> pct_losses trades = []"
    using that facts(3) by simp
  show "m_profit_factor m = Fin 0" if "pct_wins trades = [] \<and> pct_losses trades = []"
    using that facts(3) by simp
  show "m_win_loss_ratio m =
           Fin (real (length (pct_wins trades)) / real (length (pct_losses trades)))"
    if "pct_losses trades \<noteq> []"
    using that by (rule facts(4))
  show "m_win_loss_ratio m = PosInf" if "pct_wins trades \<noteq> [] \<and> pct_losses trades = []"
    using that facts(5) by simp
  show "m_win_loss_ratio m = Fin 0" if "pct_wins trades = [] \<and> pct_losses trades = []"
    using that facts(5) by simp
  show "m_profit_factor m \<noteq> NaN" by (rule facts(6))
  show "m_win_loss_ratio m \<noteq> NaN" by (rule facts(7))
qed

subsection \<open>Three evaluated runs\<close>

lemma scenario_A_result:
  "backtest_signals scenario_A (default_config 1000) =
     Inr (\<lparr>m_total_trades = 2, m_win_rate = 50, m_avg_gain = 4250 / 957,
           m_avg_loss = - (41780 / 18009),
           m_profit_factor = Fin (87975 / 45958),
           m_net_return = 8378572834739020721 / 4835750000000000000,
           m_max_drawdown = - (6144709171 / 2501250000),
           m_final_balance = 491953572834739020721 / 483575000000000000,
           m_gross_gain = 4250 / 957, m_gross_loss = 41780 / 18009,
           m_best_trade = 4250 / 957, m_worst_trade = - (41780 / 18009),
           m_win_loss_ratio = Fin 1, m_initial_balance = 1000,
           m_avg_hold_hours = 1, m_median_hold_hours = 1,
           m_exposure_pct = 50\<rparr>,
          [\<lparr>tr_entry_time = Some hour, tr_exit_time = 2 * hour,
            tr_entry_price = 22011 / 200, tr_exit_price = 45977 / 400,
            tr_pnl_pct = 4250 / 957, tr_duration_hrs = 1\<rparr>,
           \<lparr>tr_entry_time = Some (3 * hour), tr_exit_time = 4 * hour,
            tr_entry_price = 18009 / 200, tr_exit_price = 21989 / 250,
            tr_pnl_pct = - (41780 / 18009), tr_duration_hrs = 1\<rparr>],
          [(0, 1000), (hour, 666200 / 667),
           (2 * hour, 66540079317 / 63800000),
           (3 * hour, 221645004204927 / 212773000000),
           (4 * hour, 491953572834739020721 / 483575000000000000)])"
  apply (simp add: backtest_signals_eq scenario_A_def df_empty_def default_config_def)
  apply (simp add: bars_of_def sort_index_def hour_def upper_def upper_char_def)
  apply (simp add: run_defs)
  apply (simp add: metric_defs)
  done

lemma winning_frame_result:
  "backtest_signals winning_frame (default_config 1000) =
     Inr (\<lparr>m_total_trades = 1, m_win_rate = 100, m_avg_gain = 13260 / 667, m_avg_loss = 0,
           m_profit_factor = PosInf, m_net_return = 32870237951 / 1667500000,
           m_max_drawdown = - (80 / 667),
           m_final_balance = 199620237951 / 166750000,
           m_gross_gain = 13260 / 667, m_gross_loss = 0,
           m_best_trade = 13260 / 667, m_worst_trade = 13260 / 667,
           m_win_loss_ratio = PosInf, m_initial_balance = 1000,
           m_avg_hold_hours = 1, m_median_hold_hours = 1,
           m_exposure_pct = 100\<rparr>,
          [\<lparr>tr_entry_time = Some 0, tr_exit_time = hour,
            tr_entry_price = 2001 / 20, tr_exit_price = 5997 / 50,
            tr_pnl_pct = 13260 / 667, tr_duration_hrs = 1\<rparr>],
          [(0, 666200 / 667), (hour, 199620237951 / 166750000)])"
  apply (simp add: backtest_signals_eq winning_frame_def df_empty_def default_config_def)
  apply (simp add: bars_of_def sort_index_def hour_def upper_def upper_char_def)
  apply (simp add: run_defs)
  apply (simp add: metric_defs)
  done

lemma level_frame_result:
  "backtest_signals level_frame ((default_config 1000)\<lparr>slippage := 0\<rparr>) =
     Inr (\<lparr>m_total_trades = 1, m_win_rate = 0, m_avg_gain = 0, m_avg_loss = 0,
           m_profit_factor = Fin 0, m_net_return = - (139951 / 1000000),
           m_max_drawdown = - (139951 / 1000000),
           m_final_balance = 99860049 / 100000, m_gross_gain = 0,
           m_gross_loss = 0, m_best_trade = 0, m_worst_trade = 0,
           m_win_loss_ratio = Fin 0, m_initial_balance = 1000,
           m_avg_hold_hours = 1, m_median_hold_hours = 1,
           m_exposure_pct = 100\<rparr>,
          [\<lparr>tr_entry_time = Some 0, tr_exit_time = hour,
            tr_entry_price = 100, tr_exit_price = 100, tr_pnl_pct = 0,
            tr_duration_hrs = 1\<rparr>],
          [(0, 9993 / 10), (hour, 99860049 / 100000)])"
  apply (simp add: backtest_signals_eq level_frame_def df_empty_def default_config_def)
  apply (simp add: bars_of_def sort_index_def hour_def upper_def upper_char_def)
  apply (simp add: run_defs)
  apply (simp add: metric_defs)
  done

theorem ratio_metrics_total_witness:
  "map_option m_profit_factor (metrics_of (backtest_signals scenario_A (default_config 1000))) =
     Some (Fin \<bar>(4250 / 957) / (- (41780 / 18009))\<bar>) \<and>
   map_option m_win_loss_ratio (metrics_of (backtest_signals scenario_A (default_config 1000))) =
     Some (Fin (real 1 / real 1)) \<and>
   map_option m_profit_factor (metrics_of (backtest_signals winning_frame (default_config 1000))) =
     Some PosInf \<and>
   map_option m_win_loss_ratio
     (metrics_of (backtest_signals winning_frame (default_config 1000))) = Some PosInf \<and>
   pct_losses (trades_of
     (backtest_signals level_frame ((default_config 1000)\<lparr>slippage := 0\<rparr>))) = [0] \<and>
   map_option m_profit_factor
     (metrics_of (backtest_signals level_frame ((default_config 1000)\<lparr>slippage := 0\<rparr>))) =
     Some (Fin 0)"
proof -
  note a = ratio_metrics_total[THEN conjunct2, rule_format, OF scenario_A_result]
  note w = ratio_metrics_total[THEN conjunct2, rule_format, OF winning_frame_result]
  note l = ratio_metrics_total[THEN conjunct2, rule_format, OF level_frame_result]
  from a have
    "map_option m_profit_factor (metrics_of (backtest_signals scenario_A (default_config 1000))) =
       Some (Fin \<bar>(4250 / 957) / (- (41780 / 18009))\<bar>)"
    "map_option m_win_loss_ratio (metrics_of (backtest_signals scenario_A (default_config 1000))) =
       Some (Fin (real 1 / real 1))"
    by (simp_all add: scenario_A_result metrics_of_def pct_wins_def pct_losses_def)
  moreover from w have
    "map_option m_profit_factor (metrics_of (backtest_signals winning_frame (default_config 1000))) =
       Some PosInf"
    "map_option m_win_loss_ratio
       (metrics_of (backtest_signals winning_frame (default_config 1000))) = Some PosInf"
    by (simp_all add: winning_frame_result metrics_of_def pct_wins_def pct_losses_def)
  moreover from l have
    "pct_losses (trades_of
       (backtest_signals level_frame ((default_config 1000)\<lparr>slippage := 0\<rparr>))) = [0]"
    "map_option m_profit_factor
       (metrics_of (backtest_signals level_frame ((default_config 1000)\<lparr>slippage := 0\<rparr>))) =
       Some (Fin 0)"
    by (simp_all add: level_frame_result metrics_of_def trades_of_def pct_wins_def pct_losses_def)
  ultimately show ?thesis by blast
qed

subsection \<open>Scenario A\<close>

text \<open>
  C8, amended. On Scenario A with an initial balance of 1000 and the default rates the
  engine returns exactly two trades. The first is profitable; it is entered at the
  second bar, whose close is 110, so its entry price is 110 before fees (110.055 with
  slippage) and its exit price is 115 before fees (114.9425 with slippage). The net
  return is strictly positive and the maximum drawdown is at most zero.
\<close>

theorem scenario_A_outcome:
  "\<exists>m trades equity.
     backtest_signals scenario_A (default_config 1000) = Inr (m, trades, equity) \<and>
     length trades = 2 \<and> m_total_trades m = 2 \<and>
     0 < tr_pnl_pct (trades ! 0) \<and>
     tr_entry_price (trades ! 0) = 110 * (1 + 0.0005) \<and>
     tr_exit_price (trades ! 0) = 115 * (1 - 0.0005) \<and>
     approx (tr_entry_price (trades ! 0)) 110 \<and>
     approx (tr_exit_price (trades ! 0)) 115 \<and>
     0 < m_net_return m \<and> m_max_drawdown m \<le> 0"
  by (simp add: scenario_A_result approx_def)

text \<open>
  C8 as stated fails: the first trade is not entered near 100. The bar whose close is
  100 carries HOLD; the entry price of the first trade is more than 10 away from 100.
\<close>

theorem scenario_A_entry_counterexample:
  "\<not> approx (tr_entry_price
       (trades_of (backtest_signals scenario_A (default_config 1000)) ! 0)) 100 \<and>
   10 < \<bar>tr_entry_price
       (trades_of (backtest_signals scenario_A (default_config 1000)) ! 0) - 100\<bar>"
  by (simp add: scenario_A_result trades_of_def approx_def)

subsection \<open>The final balance and the equity curve\<close>

lemma trade_step_cash:
  assumes "trade_step cfg st b = Inr st'"
  shows "cash st' = cash st + bar_cash_delta cfg st b"
  using assms
  by (auto simp: trade_step_eq bar_cash_delta_def flat_def long_def Let_def py_div_def
           split: prod.splits if_splits option.splits)

lemma step_cash:
  assumes "step cfg st b = Inr st'"
  shows "cash st' = cash st + bar_cash_delta cfg st b"
  using assms by (auto simp: step_Inr_iff dest: trade_step_cash)

lemma replay_cash:
  "replay cfg st bs = Inr st' \<Longrightarrow> cash st' = cash st + sum_list (cash_deltas cfg st bs)"
proof (induction bs arbitrary: st)
  case Nil
  then show ?case by simp
next
  case (Cons b bs)
  then obtain st1 where st1: "step cfg st b = Inr st1" "replay cfg st1 bs = Inr st'"
    by (auto split: sum.splits)
  from Cons.IH[OF st1(2)] step_cash[OF st1(1)] st1(1) show ?case by simp
qed

lemma forced_exit_cash:
  assumes "entry_inv st" and "forced_exit cfg bars st = Inr st'"
  shows "cash st' = cash st + forced_exit_delta cfg bars st"
  using assms
  by (cases "entry_price st")
     (auto simp: forced_exit_eq forced_exit_delta_def long_def entry_inv_def Let_def py_div_def
           split: if_splits list.splits)

lemma step_last_point:
  assumes "step cfg st b = Inr st'"
  shows "equity_curve st' \<noteq> [] \<and>
         last (equity_curve st') = cash st' + position st' * fst (snd b)"
  using assms by (auto simp: step_Inr_iff mark_equity_curve)

lemma replay_last_point:
  "bs \<noteq> [] \<Longrightarrow> replay cfg st bs = Inr st' \<Longrightarrow>
     equity_curve st' \<noteq> [] \<and>
     last (equity_curve st') = cash st' + position st' * fst (snd (last bs))"
proof (induction bs arbitrary: st)
  case Nil
  then show ?case by simp
next
  case (Cons b bs)
  then obtain st1 where st1: "step cfg st b = Inr st1" "replay cfg st1 bs = Inr st'"
    by (auto split: sum.splits)
  show ?case
  proof (cases "bs = []")
    case True
    with st1 step_last_point[OF st1(1)] show ?thesis by simp
  next
    case False
    with Cons.IH[OF False st1(2)] show ?thesis by simp
  qed
qed

lemma step_curve_prefix:
  assumes "step cfg st b = Inr st'"
  shows "\<exists>x. equity_curve st' = equity_curve st @ [x]"
proof -
  from assms obtain st1 where st1: "trade_step cfg st b = Inr st1" "st' = mark_equity st1 b"
    by (auto simp: step_Inr_iff)
  from st1(1) have "equity_curve st1 = equity_curve st"
    by (auto simp: trade_step_eq Let_def split: prod.splits if_splits sum.splits option.splits)
  with st1(2) show ?thesis by (simp add: mark_equity_curve)
qed

lemma replay_curve_prefix:
  "replay cfg st bs = Inr st' \<Longrightarrow>
     \<exists>ext. equity_curve st' = equity_curve st @ ext \<and> length ext = length bs"
proof (induction bs arbitrary: st)
  case Nil
  then show ?case by simp
next
  case (Cons b bs)
  then obtain st1 where st1: "step cfg st b = Inr st1" "replay cfg st1 bs = Inr st'"
    by (auto split: sum.splits)
  from step_curve_prefix[OF st1(1)] obtain x where x: "equity_curve st1 = equity_curve st @ [x]"
    by blast
  from Cons.IH[OF st1(2)] obtain ext where
    "equity_curve st' = equity_curve st1 @ ext" "length ext = length bs" by blast
  with x have "equity_curve st' = equity_curve st @ (x # ext) \<and> length (x # ext) = length (b # bs)"
    by simp
  then show ?case by blast
qed

lemma replay_point:
  assumes run: "replay cfg (init_state cfg) bars = Inr st"
    and i: "i < length bars"
    and pre: "replay cfg (init_state cfg) (take (Suc i) bars) = Inr st_i"
  shows "equity_curve st ! i = cash st_i + position st_i * fst (snd (bars ! i))"
proof -
  have "replay cfg (init_state cfg) (take (Suc i) bars @ drop (Suc i) bars) = Inr st"
    by (simp only: append_take_drop_id run)
  then have rest: "replay cfg st_i (drop (Suc i) bars) = Inr st"
    unfolding replay_append pre by simp
  from replay_curve_prefix[OF rest] obtain ext where
    ext: "equity_curve st = equity_curve st_i @ ext" by blast
  have ne: "take (Suc i) bars \<noteq> []" using i by auto
  have len: "length (equity_curve st_i) = Suc i"
    using replay_init_curve(2)[OF pre] i by simp
  have lst: "last (equity_curve st_i) = cash st_i + position st_i * fst (snd (last (take (Suc i) bars)))"
    using replay_last_point[OF ne pre] by simp
  have "last (take (Suc i) bars) = bars ! i"
    using i by (simp add: take_Suc_conv_app_nth)
  moreover have "equity_curve st ! i = last (equity_curve st_i)"
    using len by (cases "equity_curve st_i" rule: rev_cases) (auto simp: ext nth_append)
  ultimately show ?thesis using lst by simp
qed

lemma length_bars_of:
  "length (bars_of idx cl sg) = min (length idx) (min (length cl) (length sg))"
  by (simp add: bars_of_def sort_index_def)

lemma frame_bars_nonempty:
  assumes "\<not> df_empty df" and "wf_frame df" and "df_close df \<noteq> None" and "df_signal df \<noteq> None"
  shows "frame_bars df \<noteq> []"
proof -
  from assms(3,4) obtain cl sg where c: "df_close df = Some cl" "df_signal df = Some sg"
    by auto
  with assms(2) have "length cl = length (df_index df)" "length sg = length (df_index df)"
    by (simp_all add: wf_frame_def)
  moreover from assms(1) have "df_index df \<noteq> []" by (simp add: df_empty_def)
  ultimately have "length (frame_bars df) \<noteq> 0"
    by (simp add: frame_bars_def c length_bars_of)
  then show ?thesis by auto
qed

lemma forced_exit_shape:
  assumes "entry_inv st" and "bars \<noteq> []" and "equity_curve st \<noteq> []"
    and "forced_exit cfg bars st = Inr st'"
  shows "equity_timestamps st' = equity_timestamps st"
    and "long st \<Longrightarrow> equity_curve st' = butlast (equity_curve st) @ [cash st']"
    and "\<not> long st \<Longrightarrow> st' = st"
proof -
  show "\<not> long st \<Longrightarrow> st' = st"
    using assms(4) by (simp add: forced_exit_eq long_def)
  show "long st \<Longrightarrow> equity_curve st' = butlast (equity_curve st) @ [cash st']"
  proof -
    assume "long st"
    then have q: "0 < position st" by (simp add: long_def)
    with assms(1) obtain ep where ep: "entry_price st = Some ep" "ep \<noteq> 0"
      by (auto simp: entry_inv_def split: option.splits)
    from assms(4) show ?thesis
      unfolding forced_exit_long[OF q ep assms(2,3)] by auto
  qed
  show "equity_timestamps st' = equity_timestamps st"
    using assms(4)
    by (auto simp: forced_exit_eq Let_def py_div_def split: if_splits list.splits)
qed

text \<open>
  C7. For a valid configuration and a non-empty frame with both columns and positive
  closes, the run returns; the reported \<open>final_balance\<close> is the initial balance plus
  the sum of the cash moved by every entry and exit, the final liquidation included; it
  is the value of the last point of the equity curve. The curve has one point per bar,
  at the bar's timestamp; the point of every bar but the last is the cash plus the
  position times the bar's unadjusted close, in the state after that bar, and so is the
  last point when the run ends FLAT. When the run ends LONG the last point is the cash
  after the liquidation.
\<close>

theorem final_balance_reconciles:
  assumes "valid_config cfg" and "\<not> df_empty df" and "wf_frame df"
    and "df_close df \<noteq> None" and "df_signal df \<noteq> None"
    and "frame_bars df = bars" and "closes_positive bars"
  shows "\<exists>st m trades equity.
     replay cfg (init_state cfg) bars = Inr st \<and>
     backtest_signals df cfg = Inr (m, trades, equity) \<and>
     m_final_balance m =
       initial_balance cfg + sum_list (cash_deltas cfg (init_state cfg) bars)
       + forced_exit_delta cfg bars st \<and>
     equity \<noteq> [] \<and> map fst equity = map fst bars \<and>
     snd (last equity) = m_final_balance m \<and>
     (\<forall>i st_i. Suc i < length bars \<and>
        replay cfg (init_state cfg) (take (Suc i) bars) = Inr st_i \<longrightarrow>
        snd (equity ! i) = cash st_i + position st_i * fst (snd (bars ! i))) \<and>
     (flat st \<longrightarrow> snd (last equity) = cash st + position st * fst (snd (last bars)))"
proof -
  have ne: "bars \<noteq> []"
    using frame_bars_nonempty[OF assms(2-5)] assms(6) by simp
  have slip: "slippage cfg \<noteq> - 1"
    using assms(1) by (auto simp: valid_config_def fractional_def)
  have pos: "0 < initial_balance cfg"
    using assms(1) by (simp add: valid_config_def)
  obtain st where st: "replay cfg (init_state cfg) bars = Inr st"
    using replay_ok[OF slip init_entry_inv assms(7)] by blast
  have einv: "entry_inv st" using init_entry_inv st by (rule replay_entry_inv)
  have sinv: "slot_inv st"
    using assms(1) init_slot_inv[OF assms(1)] st by (rule replay_slot_inv)
  note curve = replay_init_curve[OF st]
  note lastp = replay_last_point[OF ne st]
  from lastp have ec: "equity_curve st \<noteq> []" by simp
  obtain st' where st': "forced_exit cfg bars st = Inr st'"
    using forced_exit_ok[OF einv ne] by blast
  note shape = forced_exit_shape[OF einv ne ec st']
  have cash': "cash st' = cash st + forced_exit_delta cfg bars st"
    using einv st' by (rule forced_exit_cash)
  have slot: "flat st \<or> long st"
    using sinv by (auto simp: slot_inv_def flat_def long_def split: if_splits)
  have flat_last: "last (equity_curve st) = cash st" "st' = st" if "flat st"
  proof -
    from that have "position st = 0" by (simp add: flat_def)
    then show "last (equity_curve st) = cash st" using lastp by simp
    from that have "\<not> long st" by (simp add: flat_def long_def)
    then show "st' = st" by (rule shape(3))
  qed
  have ec': "equity_curve st' = butlast (equity_curve st) @ [cash st']"
  proof (cases "long st")
    case True
    then show ?thesis by (rule shape(2))
  next
    case False
    with slot have f: "flat st" by simp
    have "equity_curve st = butlast (equity_curve st) @ [last (equity_curve st)]"
      using ec by simp
    with flat_last[OF f] show ?thesis by simp
  qed
  obtain m where m: "compute_metrics cfg st' = Inr m"
    using compute_metrics_total by blast
  define equity where "equity = zip (map fst bars) (butlast (equity_curve st) @ [cash st'])"
  have run: "backtest_signals df cfg = Inr (m, trade_log st', equity)"
    using pos assms(2,4,5) st st' m
    by (simp add: backtest_signals_frame_bars assms(6) run_bars_eq equity_def shape(1)
          curve(1) ec')
  have fb: "m_final_balance m = cash st'"
    using m by (rule compute_metrics_final_balance)
  have total: "m_final_balance m =
       initial_balance cfg + sum_list (cash_deltas cfg (init_state cfg) bars)
       + forced_exit_delta cfg bars st"
    using replay_cash[OF st] cash' by (simp add: fb init_state_def)
  have len: "length (map fst bars) = Suc (length (butlast (equity_curve st)))"
    using curve(2) ne by (cases bars) simp_all
  have len': "length (butlast (equity_curve st) @ [cash st']) = length (map fst bars)"
    using len by simp
  have eq_ne: "equity \<noteq> []"
    using ne len' by (cases bars) (auto simp: equity_def)
  have ts: "map fst equity = map fst bars"
    unfolding equity_def using len' by (simp add: map_fst_zip del: length_butlast)
  have last_eq: "snd (last equity) = m_final_balance m"
    by (simp add: equity_def last_zip_snoc[OF len] fb)
  have point: "snd (equity ! i) = cash st_i + position st_i * fst (snd (bars ! i))"
    if "Suc i < length bars" and "replay cfg (init_state cfg) (take (Suc i) bars) = Inr st_i"
    for i st_i
  proof -
    from that(1) have i: "i < length bars" by simp
    have "i < length (butlast (equity_curve st))"
      using that(1) curve(2) by simp
    then have "(butlast (equity_curve st) @ [cash st']) ! i = equity_curve st ! i"
      by (simp add: nth_append nth_butlast)
    moreover have "snd (equity ! i) = (butlast (equity_curve st) @ [cash st']) ! i"
      unfolding equity_def using i len' by (simp del: length_butlast)
    ultimately show ?thesis using replay_point[OF st i that(2)] by simp
  qed
  have flat_point: "snd (last equity) = cash st + position st * fst (snd (last bars))"
    if "flat st"
    using flat_last[OF that] that last_eq fb by (simp add: flat_def)
  from st run total eq_ne ts last_eq point flat_point show ?thesis by blast
qed

theorem final_balance_reconciles_witness:
  "\<exists>st. replay (default_config 1000) (init_state (default_config 1000)) (frame_bars scenario_A) =
          Inr st \<and>
        (491953572834739020721 / 483575000000000000 :: real) =
          1000 + sum_list (cash_deltas (default_config 1000) (init_state (default_config 1000))
                             (frame_bars scenario_A))
          + forced_exit_delta (default_config 1000) (frame_bars scenario_A) st \<and>
        snd (last (equity_of (backtest_signals scenario_A (default_config 1000)))) =
          491953572834739020721 / 483575000000000000"
proof -
  let ?c = "default_config 1000"
  have v: "valid_config ?c" by (simp add: valid_config_def fractional_def default_config_def)
  have f: "\<not> df_empty scenario_A" "wf_frame scenario_A" "df_close scenario_A \<noteq> None"
    "df_signal scenario_A \<noteq> None"
    by (simp_all add: scenario_A_def df_empty_def wf_frame_def hour_def)
  have p: "closes_positive (frame_bars scenario_A)"
    by (simp add: closes_positive_def frame_bars_def scenario_A_def bars_of_def sort_index_def
          hour_def)
  from final_balance_reconciles[OF v f refl p] obtain st m trades equity where
    st: "replay ?c (init_state ?c) (frame_bars scenario_A) = Inr st"
    and run: "backtest_signals scenario_A ?c = Inr (m, trades, equity)"
    and total: "m_final_balance m =
       initial_balance ?c + sum_list (cash_deltas ?c (init_state ?c) (frame_bars scenario_A))
       + forced_exit_delta ?c (frame_bars scenario_A) st"
    and lst: "snd (last equity) = m_final_balance m"
    by blast
  from run have m: "m_final_balance m = 491953572834739020721 / 483575000000000000"
    and e: "equity_of (backtest_signals scenario_A ?c) = equity"
    by (auto simp: scenario_A_result equity_of_def)
  have "initial_balance ?c = 1000" by (simp add: default_config_def)
  with st total lst m e show ?thesis by auto
qed

subsection \<open>Which runs raise, on either kind of index\<close>



















subsection \<open>The signal rule\<close>

lemma length_shift1 [simp]: "length (shift1 xs) = length xs"
  by (cases xs rule: rev_cases) (simp_all add: shift1_def)

lemma length_reindex [simp]: "length (reindex n xs) = n"
  by (simp add: reindex_def)

lemma length_masks [simp]:
  "length (lt_scalar xs c) = length xs" "length (le_scalar xs c) = length xs"
  "length (gt_scalar xs c) = length xs" "length (ge_scalar xs c) = length xs"
  "length (notna xs) = length xs"
  "length (lt_series xs ys) = min (length xs) (length ys)"
  "length (gt_series xs ys) = min (length xs) (length ys)"
  "length (and_mask ms ns) = min (length ms) (length ns)"
  by (simp_all add: lt_scalar_def le_scalar_def gt_scalar_def ge_scalar_def notna_def
        lt_series_def gt_series_def and_mask_def)

lemma length_assign_where [simp]:
  "length (assign_where ms v col) = min (length ms) (length col)"
  by (simp add: assign_where_def)

lemma nth_shift1: "t < length xs \<Longrightarrow> shift1 xs ! t = (if t = 0 then None else xs ! (t - 1))"
  by (cases t) (auto simp: shift1_def nth_butlast)

lemma prev_at_shift1: "t < length xs \<Longrightarrow> prev_at xs t = shift1 xs ! t"
  by (auto simp: prev_at_def cell_at_def nth_shift1)

lemma cell_at_nth: "t < length xs \<Longrightarrow> cell_at xs t = xs ! t"
  by (simp add: cell_at_def)

lemma nth_scalar_masks:
  assumes "t < length xs"
  shows "lt_scalar xs c ! t = lt_cell (xs ! t) (Some c)"
    and "le_scalar xs c ! t = le_cell (xs ! t) (Some c)"
    and "gt_scalar xs c ! t = lt_cell (Some c) (xs ! t)"
    and "ge_scalar xs c ! t = le_cell (Some c) (xs ! t)"
    and "notna xs ! t = (xs ! t \<noteq> None)"
  using assms
  by (simp_all add: lt_scalar_def le_scalar_def gt_scalar_def ge_scalar_def notna_def
        lt_cell_def le_cell_def split: option.splits)

lemma nth_series_masks:
  assumes "t < length xs" and "t < length ys"
  shows "lt_series xs ys ! t = lt_cell (xs ! t) (ys ! t)"
    and "gt_series xs ys ! t = lt_cell (ys ! t) (xs ! t)"
  using assms by (simp_all add: lt_series_def gt_series_def)

lemma nth_and_mask:
  "t < length ms \<Longrightarrow> t < length ns \<Longrightarrow> and_mask ms ns ! t = (ms ! t \<and> ns ! t)"
  by (simp add: and_mask_def)

lemma nth_assign_where:
  "t < length ms \<Longrightarrow> t < length col \<Longrightarrow>
     assign_where ms v col ! t = (if ms ! t then v else col ! t)"
  by (simp add: assign_where_def)

lemma lt_cell_asym: "lt_cell x y \<Longrightarrow> \<not> lt_cell y x"
  by (auto simp: lt_cell_def split: option.splits)

lemma signal_columns_length:
  assumes "length rsi = n" "length ema_fast = n" "length ema_slow = n"
    "length macd = n" "length macd_signal = n"
  shows "length (fst (signal_columns n rsi ema_fast ema_slow macd macd_signal oversold overbought))
           = n"
  by (simp add: signal_columns_def Let_def assms)

lemma signal_columns_nth:
  assumes len: "length rsi = n" "length ema_fast = n" "length ema_slow = n"
    "length macd = n" "length macd_signal = n"
    and t: "t < n"
    and cols: "c_rsi cols = rsi" "c_ema_fast cols = ema_fast" "c_ema_slow cols = ema_slow"
      "c_macd cols = macd" "c_macd_signal cols = macd_signal"
  shows "length (fst (signal_columns n rsi ema_fast ema_slow macd macd_signal oversold overbought))
           = n"
    and "fst (signal_columns n rsi ema_fast ema_slow macd macd_signal oversold overbought) ! t =
           spec_signal cols oversold overbought t"
proof -
  show "length (fst (signal_columns n rsi ema_fast ema_slow macd macd_signal oversold overbought))
           = n"
    by (simp add: signal_columns_def Let_def len)
  have excl: "\<not> (fast_above_slow cols t \<and> fast_below_slow cols t)"
    using lt_cell_asym by (auto simp: fast_above_slow_def fast_below_slow_def)
  have na: "oversold_cross_up cols oversold t \<Longrightarrow> rsi ! t \<noteq> None \<and> shift1 rsi ! t \<noteq> None"
    "overbought_cross_down cols overbought t \<Longrightarrow> rsi ! t \<noteq> None \<and> shift1 rsi ! t \<noteq> None"
    using t len(1)
    by (auto simp: oversold_cross_up_def overbought_cross_down_def cols prev_at_shift1
          cell_at_nth lt_cell_def le_cell_def split: option.splits)
  show "fst (signal_columns n rsi ema_fast ema_slow macd macd_signal oversold overbought) ! t =
           spec_signal cols oversold overbought t"
    using t excl na
    by (auto simp: signal_columns_def Let_def len nth_assign_where nth_and_mask
          nth_scalar_masks nth_series_masks nth_shift1[symmetric] prev_at_shift1 cell_at_nth
          spec_signal_def buy_trigger_def sell_trigger_def oversold_cross_up_def
          overbought_cross_down_def fast_above_slow_def fast_below_slow_def
          macd_crosses_up_def macd_crosses_down_def cols)
qed

lemma rsi_signal_enriched:
  assumes "rsi_signal ind df period oversold overbought ema_fast_period ema_slow_period =
             Inr (Enriched idx closes cols)"
  shows "length (c_signal cols) = length idx"
    and "length (c_rsi cols) = length idx"
    and "t < length idx \<Longrightarrow> c_signal cols ! t = spec_signal cols oversold overbought t"
proof -
  from assms obtain cl where cl: "df_close df = Some cl" and ne: "\<not> df_empty df"
    by (auto simp: rsi_signal_def split: if_splits option.splits)
  define n where "n = length idx"
  define macd_df where "macd_df = ind_macd ind (map snd (sort_index (zip (df_index df) cl)))
      ema_fast_period ema_slow_period 9"
  define macd where "macd = (if fst macd_df = [] then replicate n None
      else reindex n (fst macd_df))"
  define macd_signal where "macd_signal = (if fst macd_df = [] then replicate n None
      else reindex n (fst (snd macd_df)))"
  from assms cl ne have idx: "idx = map fst (sort_index (zip (df_index df) cl))"
    by (simp add: rsi_signal_def Let_def)
  from assms cl ne have sig: "c_signal cols =
      fst (signal_columns n (c_rsi cols) (c_ema_fast cols) (c_ema_slow cols)
             (c_macd cols) (c_macd_signal cols) oversold overbought)"
    and lens: "length (c_rsi cols) = n" "length (c_ema_fast cols) = n"
      "length (c_ema_slow cols) = n" "length (c_macd cols) = n"
      "length (c_macd_signal cols) = n"
    by (auto simp: rsi_signal_def Let_def n_def idx split: if_splits)
  show "length (c_rsi cols) = length idx" using lens(1) by (simp add: n_def)
  show "length (c_signal cols) = length idx"
    unfolding sig n_def[symmetric]
    by (rule signal_columns_length[OF lens])
  show "c_signal cols ! t = spec_signal cols oversold overbought t" if "t < length idx"
    unfolding sig
    using that by (intro signal_columns_nth(2)[OF lens]) (simp_all add: n_def)
qed

lemma cross_directions_exclusive:
  "oversold_cross_up cols oversold t \<Longrightarrow> sell_trigger cols overbought t \<Longrightarrow> False"
  by (auto simp: oversold_cross_up_def sell_trigger_def overbought_cross_down_def
        lt_cell_def le_cell_def split: option.splits)

text \<open>
  C5. At every bar \<open>t\<close> of the deriver's output the signal is the one the rule of the
  specification gives for the indicator columns of that output. It is BUY or STRONG BUY
  exactly when the oscillator is below the oversold threshold at \<open>t - 1\<close>, at or above it
  at \<open>t\<close>, and the fast trend line is above the slow one at \<open>t\<close>; SELL or STRONG SELL
  exactly for the downward cross through the overbought threshold with the fast line
  below the slow one; the STRONG form exactly when, in addition, the
  convergence/divergence line crosses its signal line in the same direction at \<open>t\<close>;
  HOLD at every other bar. An upward oversold cross with the fast line below the slow
  one gives HOLD.
\<close>

theorem signal_follows_rule:
  assumes "rsi_signal ind df period oversold overbought ema_fast_period ema_slow_period =
             Inr (Enriched idx closes cols)"
    and "t < length idx"
  shows
    "length (c_signal cols) = length idx \<and>
     c_signal cols ! t = spec_signal cols oversold overbought t \<and>
     (c_signal cols ! t = ''BUY'' \<longleftrightarrow>
        buy_trigger cols oversold t \<and> \<not> macd_crosses_up cols t) \<and>
     (c_signal cols ! t = ''STRONG BUY'' \<longleftrightarrow>
        buy_trigger cols oversold t \<and> macd_crosses_up cols t) \<and>
     (c_signal cols ! t = ''SELL'' \<longleftrightarrow>
        sell_trigger cols overbought t \<and> \<not> macd_crosses_down cols t) \<and>
     (c_signal cols ! t = ''STRONG SELL'' \<longleftrightarrow>
        sell_trigger cols overbought t \<and> macd_crosses_down cols t) \<and>
     (c_signal cols ! t = ''HOLD'' \<longleftrightarrow>
        \<not> buy_trigger cols oversold t \<and> \<not> sell_trigger cols overbought t) \<and>
     (oversold_cross_up cols oversold t \<and> fast_below_slow cols t \<longrightarrow>
        c_signal cols ! t = ''HOLD'')"
proof -
  note sig = rsi_signal_enriched[OF assms(1)]
  have excl: "\<not> (buy_trigger cols oversold t \<and> sell_trigger cols overbought t)"
    using cross_directions_exclusive by (auto simp: buy_trigger_def)
  have veto: "\<not> buy_trigger cols oversold t \<and> \<not> sell_trigger cols overbought t"
    if "oversold_cross_up cols oversold t \<and> fast_below_slow cols t"
    using that cross_directions_exclusive[of cols oversold t overbought] lt_cell_asym
    by (auto simp: buy_trigger_def fast_above_slow_def fast_below_slow_def)
  show ?thesis
    using excl veto
    by (auto simp: sig(1) sig(3)[OF assms(2)] spec_signal_def)
qed

lemma test_frame_enriched:
  "rsi_signal test_indicators test_frame 14 30 70 12 26 =
     Inr (Enriched [0, hour, 2 * hour, 3 * hour] [100, 101, 102, 103]
       \<lparr>c_rsi = [Some 25, Some 80, Some 65, Some 60],
        c_ema_fast = [Some 1.2, Some 1.4, Some 0.8, Some 0.6],
        c_ema_slow = [Some 1.1, Some 1.3, Some 0.9, Some 0.7],
        c_macd = [Some (- 0.1), Some 0.2, Some 0.05, Some (- 0.1)],
        c_macd_signal = [Some 0, Some 0.1, Some 0.1, Some (- 0.05)],
        c_macd_histogram = [Some (- 0.1), Some 0.1, Some (- 0.05), Some (- 0.05)],
        c_signal = [''HOLD'', ''STRONG BUY'', ''STRONG SELL'', ''HOLD''],
        c_signal_strength = [''NEUTRAL'', ''BULLISH'', ''BEARISH'', ''NEUTRAL''],
        c_divergence = [None, None, None, Some ''BEARISH'']\<rparr>)"
  by (simp add: rsi_signal_def test_indicators_def test_frame_def df_empty_def sort_index_def
        hour_def reindex_def Let_def signal_columns_def divergence_column_def shift1_def
        lt_scalar_def le_scalar_def gt_scalar_def ge_scalar_def lt_series_def gt_series_def
        lt_cell_def notna_def and_mask_def assign_where_def)

lemma veto_frame_enriched:
  "rsi_signal veto_indicators two_bar_frame 14 30 70 12 26 =
     Inr (Enriched [0, hour] [100, 101]
       \<lparr>c_rsi = [Some 25, Some 35],
        c_ema_fast = [Some 1, Some 1],
        c_ema_slow = [Some 2, Some 2],
        c_macd = [Some (- 1), Some (- 1)],
        c_macd_signal = [Some 0, Some 0],
        c_macd_histogram = [Some (- 1), Some (- 1)],
        c_signal = [''HOLD'', ''HOLD''],
        c_signal_strength = [''NEUTRAL'', ''NEUTRAL''],
        c_divergence = [None, None]\<rparr>)"
  by (simp add: veto_indicators_def two_bar_frame_def deriver_defs)

theorem signal_follows_rule_witness:
  "signal_of (rsi_signal test_indicators test_frame 14 30 70 12 26) ! 1 = ''STRONG BUY'' \<and>
   signal_of (rsi_signal test_indicators test_frame 14 30 70 12 26) ! 2 = ''STRONG SELL'' \<and>
   signal_of (rsi_signal test_indicators test_frame 14 30 70 12 26) ! 3 = ''HOLD'' \<and>
   signal_of (rsi_signal veto_indicators two_bar_frame 14 30 70 12 26) ! 1 = ''HOLD''"
  using signal_follows_rule[OF test_frame_enriched, of 1]
    signal_follows_rule[OF test_frame_enriched, of 2]
    signal_follows_rule[OF test_frame_enriched, of 3]
    signal_follows_rule[OF veto_frame_enriched, of 1]
  by (simp add: signal_of_def test_frame_enriched veto_frame_enriched)

text \<open>
  C9. On an empty table the deriver returns a copy of it, with no column added, and does
  not raise. On a table of one row with a \<open>close\<close> column the signal is HOLD. At every
  bar where the oscillator or its value at the bar before is undefined, no trigger fires
  and the signal is HOLD.
\<close>

theorem deriver_edge_cases:
  "(df_empty df \<longrightarrow>
      rsi_signal ind df period oversold overbought ema_fast_period ema_slow_period =
        Inr (Copy df)) \<and>
   (df_index df = [ts] \<and> df_close df = Some [c] \<longrightarrow>
      (\<exists>cols. rsi_signal ind df period oversold overbought ema_fast_period ema_slow_period =
                Inr (Enriched [ts] [c] cols) \<and>
              c_signal cols = [''HOLD''])) \<and>
   (rsi_signal ind df period oversold overbought ema_fast_period ema_slow_period =
      Inr (Enriched idx closes cols) \<and> t < length idx \<and>
    (cell_at (c_rsi cols) t = None \<or> prev_at (c_rsi cols) t = None) \<longrightarrow>
      c_signal cols ! t = ''HOLD'' \<and> \<not> buy_trigger cols oversold t \<and>
      \<not> sell_trigger cols overbought t)"
proof -
  have empty: "rsi_signal ind df period oversold overbought ema_fast_period ema_slow_period =
        Inr (Copy df)" if "df_empty df"
    using that by (simp add: rsi_signal_def)
  have single: "\<exists>cols. rsi_signal ind df period oversold overbought ema_fast_period
        ema_slow_period = Inr (Enriched [ts] [c] cols) \<and> c_signal cols = [''HOLD'']"
    if one: "df_index df = [ts] \<and> df_close df = Some [c]"
  proof -
    from one have "\<not> df_empty df" by (simp add: df_empty_def)
    with one obtain cols where
      run: "rsi_signal ind df period oversold overbought ema_fast_period ema_slow_period =
              Inr (Enriched [ts] [c] cols)"
      by (simp add: rsi_signal_def Let_def sort_index_def)
    note sig = rsi_signal_enriched[OF run]
    have "spec_signal cols oversold overbought 0 = ''HOLD''"
      by (simp add: spec_signal_def buy_trigger_def sell_trigger_def oversold_cross_up_def
            overbought_cross_down_def prev_at_def lt_cell_def)
    with sig(3)[of 0] have "c_signal cols ! 0 = ''HOLD''" by simp
    moreover from sig(1) have "length (c_signal cols) = 1" by simp
    ultimately have "c_signal cols = [''HOLD'']"
      by (cases "c_signal cols") auto
    with run show ?thesis by blast
  qed
  have warmup: "c_signal cols ! t = ''HOLD'' \<and> \<not> buy_trigger cols oversold t \<and>
      \<not> sell_trigger cols overbought t"
    if a: "rsi_signal ind df period oversold overbought ema_fast_period ema_slow_period =
      Inr (Enriched idx closes cols) \<and> t < length idx \<and>
      (cell_at (c_rsi cols) t = None \<or> prev_at (c_rsi cols) t = None)"
  proof -
    from a have run: "rsi_signal ind df period oversold overbought ema_fast_period
        ema_slow_period = Inr (Enriched idx closes cols)" and t: "t < length idx"
      and na: "cell_at (c_rsi cols) t = None \<or> prev_at (c_rsi cols) t = None"
      by simp_all
    from na have none: "\<not> buy_trigger cols oversold t \<and> \<not> sell_trigger cols overbought t"
      by (auto simp: buy_trigger_def sell_trigger_def oversold_cross_up_def
            overbought_cross_down_def lt_cell_def le_cell_def split: option.splits)
    then show ?thesis
      using rsi_signal_enriched(3)[OF run t] by (simp add: spec_signal_def)
  qed
  from empty single warmup show ?thesis by blast
qed

lemma warmup_frame_enriched:
  "rsi_signal warmup_indicators test_frame 14 30 70 12 26 =
     Inr (Enriched [0, hour, 2 * hour, 3 * hour] [100, 101, 102, 103]
       \<lparr>c_rsi = [None, Some 35, Some 25, Some 40],
        c_ema_fast = [Some 2, Some 2, Some 2, Some 2],
        c_ema_slow = [Some 1, Some 1, Some 1, Some 1],
        c_macd = [Some 1, Some 1, Some 1, Some 1],
        c_macd_signal = [Some 0, Some 0, Some 0, Some 0],
        c_macd_histogram = [Some 1, Some 1, Some 1, Some 1],
        c_signal = [''HOLD'', ''HOLD'', ''HOLD'', ''BUY''],
        c_signal_strength = [''NEUTRAL'', ''NEUTRAL'', ''NEUTRAL'', ''BUY''],
        c_divergence = [None, None, None, None]\<rparr>)"
  by (simp add: warmup_indicators_def test_frame_def deriver_defs)

theorem deriver_edge_cases_witness:
  "rsi_signal test_indicators
     \<lparr>df_index = [], df_close = Some [], df_signal = None, df_other = [''open'']\<rparr>
     14 30 70 12 26 =
     Inr (Copy \<lparr>df_index = [], df_close = Some [], df_signal = None, df_other = [''open'']\<rparr>) \<and>
   signal_of (rsi_signal test_indicators one_bar_frame 14 30 70 12 26) = [''HOLD''] \<and>
   signal_of (rsi_signal warmup_indicators test_frame 14 30 70 12 26) ! 1 = ''HOLD''"
proof -
  note e = deriver_edge_cases[THEN conjunct1, rule_format,
      of "\<lparr>df_index = [], df_close = Some [], df_signal = None, df_other = [''open'']\<rparr>"
         test_indicators 14 30 70 12 26]
  note o = deriver_edge_cases[THEN conjunct2, THEN conjunct1, rule_format,
      of one_bar_frame 0 100 test_indicators 14 30 70 12 26]
  note w = deriver_edge_cases[THEN conjunct2, THEN conjunct2, rule_format,
      of warmup_indicators test_frame 14 30 70 12 26 _ _ _ 1, OF conjI,
      OF warmup_frame_enriched]
  have "rsi_signal test_indicators
     \<lparr>df_index = [], df_close = Some [], df_signal = None, df_other = [''open'']\<rparr>
     14 30 70 12 26 =
     Inr (Copy \<lparr>df_index = [], df_close = Some [], df_signal = None, df_other = [''open'']\<rparr>)"
    using e by (simp add: df_empty_def)
  moreover have "signal_of (rsi_signal test_indicators one_bar_frame 14 30 70 12 26) = [''HOLD'']"
    using o by (auto simp: one_bar_frame_def signal_of_def)
  moreover have "signal_of (rsi_signal warmup_indicators test_frame 14 30 70 12 26) ! 1 = ''HOLD''"
    using w by (simp add: signal_of_def warmup_frame_enriched cell_at_def prev_at_def)
  ultimately show ?thesis by blast
qed

end
